theory Spec2Isabelle
  imports Complex_Main
begin

section \<open>Python values\<close>

subsection \<open>Floats\<close>

text \<open>
  A Python float is an IEEE binary64 value. Apart from \<^verbatim>\<open>nan\<close>, which is kept apart below,
  it is a finite value, given here by the real number it denotes, or one of the two
  infinities.
\<close>

datatype float64 = Finite real | PlusInf | MinusInf

definition pow2 :: "int \<Rightarrow> real" where
  "pow2 e = (if 0 \<le> e then 2 ^ nat e else 1 / 2 ^ nat (- e))"

text \<open>
  The exponent of the binade of \<open>x\<close>, searched by bisection between \<open>lo\<close> and \<open>hi\<close>: the
  largest \<open>e\<close> in that range with \<open>2 ^ e \<le> x\<close>, and \<open>lo\<close> when there is none.
\<close>

function binade_between :: "real \<Rightarrow> int \<Rightarrow> int \<Rightarrow> int" where
  "binade_between x lo hi =
     (if lo < hi
      then (let mid = (lo + hi + 1) div 2 in
            if pow2 mid \<le> x then binade_between x mid hi else binade_between x lo (mid - 1))
      else lo)"
  by pat_completeness auto
termination
  by (relation "measure (\<lambda>(x, lo, hi). nat (hi - lo))") auto

declare binade_between.simps [simp del]

definition round_half_even :: "real \<Rightarrow> int" where
  "round_half_even y =
     (let f = \<lfloor>y\<rfloor>; d = y - of_int f in
      if d < 1 / 2 then f else if 1 / 2 < d then f + 1 else if even f then f else f + 1)"

text \<open>
  Rounding a real \<open>x \<ge> 0\<close> to binary64, to nearest with ties to even: in the binade of
  \<open>x\<close> (exponents from -1022, where the subnormal numbers lie, to 1023) the values are
  the multiples of \<open>2 ^ (e - 52)\<close>; a result of \<open>2 ^ 1024\<close> or more is an overflow (\<open>None\<close>).
\<close>

definition round_magnitude :: "real \<Rightarrow> real option" where
  "round_magnitude x =
     (let e = binade_between x (- 1022) 1023;
          ulp = pow2 (e - 52);
          y = of_int (round_half_even (x / ulp)) * ulp
      in if pow2 1024 \<le> y then None else Some y)"

text \<open>
  The binary64 value nearest to a real: what \<^verbatim>\<open>float(t)\<close> returns for the decimal number
  it reads, what the conversion of an \<^verbatim>\<open>int\<close> gives, and what an arithmetic operation
  returns for its exact result.
\<close>

definition round64 :: "real \<Rightarrow> float64" where
  "round64 x =
     (if x < 0
      then (case round_magnitude (- x) of None \<Rightarrow> MinusInf | Some y \<Rightarrow> Finite (- y))
      else (case round_magnitude x of None \<Rightarrow> PlusInf | Some y \<Rightarrow> Finite y))"

text \<open>\<^verbatim>\<open>x * r\<close> for a float \<open>x\<close> and a finite \<open>r > 0\<close>: the exact product, rounded.\<close>

definition float_times :: "float64 \<Rightarrow> real \<Rightarrow> float64" where
  "float_times x r =
     (case x of Finite a \<Rightarrow> round64 (a * r) | PlusInf \<Rightarrow> PlusInf | MinusInf \<Rightarrow> MinusInf)"

definition float_nonneg :: "float64 \<Rightarrow> bool" where
  "float_nonneg x = (case x of Finite a \<Rightarrow> 0 \<le> a | PlusInf \<Rightarrow> True | MinusInf \<Rightarrow> False)"

subsection \<open>Cell values and text\<close>

text \<open>
  The cleaners of \<^verbatim>\<open>utils/transform.py\<close> take whatever a cell of the data frame holds:
  \<^verbatim>\<open>None\<close>, the float \<^verbatim>\<open>nan\<close> that pandas puts where a record lacks a key, a string,
  another float or an integer. A Python \<^verbatim>\<open>int\<close> is an \<open>int\<close>. A \<^verbatim>\<open>str\<close> is a \<open>string\<close> whose
  characters are read as the code points 0 to 255.
\<close>

datatype pyval = PNone | PNaN | PStr string | PFloat float64 | PInt int

text \<open>\<^verbatim>\<open>str.isspace\<close> and the pattern class \<^verbatim>\<open>\s\<close> on the code points below 256.\<close>

definition is_space :: "char \<Rightarrow> bool" where
  "is_space c = (of_char c \<in> {9, 10, 11, 12, 13, 28, 29, 30, 31, 32, 133, 160 :: nat})"

text \<open>The pattern class \<^verbatim>\<open>\d\<close> on the code points below 256: the ten ASCII digits.\<close>

definition is_digit :: "char \<Rightarrow> bool" where
  "is_digit c = (48 \<le> (of_char c :: nat) \<and> (of_char c :: nat) \<le> 57)"

definition digit_val :: "char \<Rightarrow> nat" where
  "digit_val c = of_char c - 48"

definition digits_val :: "string \<Rightarrow> nat" where
  "digits_val ds = foldl (\<lambda>a c. 10 * a + digit_val c) 0 ds"

text \<open>\<^verbatim>\<open>s.strip()\<close>: leading and trailing whitespace removed.\<close>

definition strip :: "string \<Rightarrow> string" where
  "strip s = rev (dropWhile is_space (rev (dropWhile is_space s)))"

fun starts_with :: "string \<Rightarrow> string \<Rightarrow> bool" where
  "starts_with [] s = True"
| "starts_with (p # ps) [] = False"
| "starts_with (p # ps) (c # cs) = (p = c \<and> starts_with ps cs)"

text \<open>\<^verbatim>\<open>sub in s\<close>: \<open>sub\<close> occurs in \<open>s\<close> at some position.\<close>

fun str_in :: "string \<Rightarrow> string \<Rightarrow> bool" where
  "str_in sub [] = (sub = [])"
| "str_in sub (c # cs) = (starts_with sub (c # cs) \<or> str_in sub cs)"

text \<open>
  \<^verbatim>\<open>s.replace(old, '')\<close>: every occurrence of \<open>old\<close> is deleted, scanning from the left
  and resuming after each deleted occurrence. With an empty \<open>old\<close> nothing is deleted.
\<close>

function replace_del :: "string \<Rightarrow> string \<Rightarrow> string" where
  "replace_del old [] = []"
| "replace_del old (c # cs) =
     (if old \<noteq> [] \<and> starts_with old (c # cs)
      then replace_del old (drop (length old) (c # cs))
      else c # replace_del old cs)"
  by pat_completeness auto
termination
  by (relation "measure (\<lambda>(old, s). length s)") (auto simp: Suc_diff_le)

datatype py_error = ValueError

text \<open>
  \<^verbatim>\<open>float(t)\<close> on the text of a numeric token. The patterns of this module yield digits
  with at most one point, and \<^verbatim>\<open>float\<close> accepts such a text exactly when it has a digit
  (\<^verbatim>\<open>float('')\<close> and \<^verbatim>\<open>float('.')\<close> raise \<^verbatim>\<open>ValueError\<close>); the result is the decimal
  number rounded to binary64, infinite when the number is too large. Signs, exponents
  and the other forms of the float grammar cannot reach this call and are not modelled.
\<close>

definition py_float :: "string \<Rightarrow> py_error + float64" where
  "py_float t =
     (let ip = takeWhile is_digit t; r = dropWhile is_digit t in
      case r of
        [] \<Rightarrow> if ip = [] then Inl ValueError else Inr (round64 (real (digits_val ip)))
      | c # fp \<Rightarrow>
          if c = CHR ''.'' \<and> list_all is_digit fp \<and> (ip \<noteq> [] \<or> fp \<noteq> [])
          then Inr (round64 (real (digits_val ip) + real (digits_val fp) / 10 ^ length fp))
          else Inl ValueError)"

text \<open>
  \<^verbatim>\<open>int(t)\<close> on a run of digits. Python integers are unbounded, but the interpreter
  refuses to convert a text of more digits than its limit, 4300 unless configured
  otherwise, and raises \<^verbatim>\<open>ValueError\<close>; leading zeros count.
\<close>

definition int_max_str_digits :: nat where
  "int_max_str_digits = 4300"

definition py_int :: "string \<Rightarrow> py_error + int" where
  "py_int t =
     (if t \<noteq> [] \<and> list_all is_digit t \<and> length t \<le> int_max_str_digits
      then Inr (int (digits_val t)) else Inl ValueError)"

section \<open>The patterns of the cleaners\<close>

text \<open>
  \<^verbatim>\<open>re.search\<close> tries the pattern at each position from the left and returns the first
  match; at one position the greedy quantifiers take the longest run first and give
  characters back only if the rest of the pattern fails.

  \<^verbatim>\<open>([\d,]+\.?\d*)\<close> at the start of \<open>s\<close>: nothing follows the group, so the longest
  runs are the match.
\<close>

definition is_digit_or_comma :: "char \<Rightarrow> bool" where
  "is_digit_or_comma c = (is_digit c \<or> c = CHR '','')"

definition price_group :: "string \<Rightarrow> string option" where
  "price_group s =
     (let a = takeWhile is_digit_or_comma s; r = dropWhile is_digit_or_comma s in
      if a = [] then None
      else (case r of
              [] \<Rightarrow> Some a
            | c # r' \<Rightarrow> if c = CHR ''.'' then Some (a @ c # takeWhile is_digit r') else Some a))"

text \<open>
  \<^verbatim>\<open>\$?([\d,]+\.?\d*)\<close> at the start of \<open>s\<close>: the optional currency sign is taken when
  it is there, and given back when the group does not match after it.
\<close>

definition match_price_at :: "string \<Rightarrow> string option" where
  "match_price_at s =
     (case s of
        [] \<Rightarrow> price_group s
      | c # cs \<Rightarrow>
          if c = CHR ''$''
          then (case price_group cs of Some g \<Rightarrow> Some g | None \<Rightarrow> price_group s)
          else price_group s)"

fun search_price :: "string \<Rightarrow> string option" where
  "search_price [] = match_price_at []"
| "search_price (c # cs) =
     (case match_price_at (c # cs) of Some g \<Rightarrow> Some g | None \<Rightarrow> search_price cs)"

text \<open>
  \<^verbatim>\<open>(\d+\.?\d*)\<close> at the start of \<open>s\<close>, returning the group and the text after it.
\<close>

definition number_group :: "string \<Rightarrow> (string \<times> string) option" where
  "number_group s =
     (let a = takeWhile is_digit s; r = dropWhile is_digit s in
      if a = [] then None
      else (case r of
              [] \<Rightarrow> Some (a, [])
            | c # r' \<Rightarrow>
                if c = CHR ''.'' then Some (a @ c # takeWhile is_digit r', dropWhile is_digit r')
                else Some (a, r)))"

text \<open>\<^verbatim>\<open>\s*/\s*5\<close> at the start of \<open>r\<close>.\<close>

definition slash5 :: "string \<Rightarrow> bool" where
  "slash5 r =
     (case dropWhile is_space r of
        [] \<Rightarrow> False
      | c # r1 \<Rightarrow>
          c = CHR ''/'' \<and> (case dropWhile is_space r1 of [] \<Rightarrow> False | d # _ \<Rightarrow> d = CHR ''5''))"

text \<open>
  \<^verbatim>\<open>(\d+\.?\d*)\s*/\s*5\<close> at the start of \<open>s\<close>. What follows the group starts with
  whitespace or the slash, so a group that stops inside a run of digits, or before a
  point, cannot be continued: the only group that can match is the longest one.
\<close>

definition match_rating_at :: "string \<Rightarrow> string option" where
  "match_rating_at s =
     (case number_group s of
        None \<Rightarrow> None
      | Some (g, r) \<Rightarrow> if slash5 r then Some g else None)"

fun search_rating :: "string \<Rightarrow> string option" where
  "search_rating [] = match_rating_at []"
| "search_rating (c # cs) =
     (case match_rating_at (c # cs) of Some g \<Rightarrow> Some g | None \<Rightarrow> search_rating cs)"

fun search_number :: "string \<Rightarrow> string option" where
  "search_number [] = map_option fst (number_group [])"
| "search_number (c # cs) =
     (case number_group (c # cs) of Some (g, r) \<Rightarrow> Some g | None \<Rightarrow> search_number cs)"

text \<open>\<^verbatim>\<open>(\d+)\<close> at the start of \<open>s\<close>, and its search.\<close>

definition digits_group :: "string \<Rightarrow> string option" where
  "digits_group s = (let a = takeWhile is_digit s in if a = [] then None else Some a)"

fun search_digits :: "string \<Rightarrow> string option" where
  "search_digits [] = digits_group []"
| "search_digits (c # cs) =
     (case digits_group (c # cs) of Some g \<Rightarrow> Some g | None \<Rightarrow> search_digits cs)"

section \<open>The field cleaners\<close>

text \<open>
  The rate is the Python \<^verbatim>\<open>int\<close> 16000; in the product with a float it stands for the
  float of the same value.
\<close>

definition USD_TO_IDR_RATE :: real where
  "USD_TO_IDR_RATE = 16000"

text \<open>
  Each cleaner returns \<open>Inr None\<close> for Python's \<^verbatim>\<open>None\<close> (missing), \<open>Inr (Some x)\<close> for a
  value, and \<open>Inl ValueError\<close> where its \<^verbatim>\<open>except Exception\<close> handler re-raises as
  \<^verbatim>\<open>ValueError\<close>. The first test, \<^verbatim>\<open>not v or not isinstance(v, str)\<close>, lets only a
  non-empty string through.
\<close>

definition clean_price :: "pyval \<Rightarrow> py_error + float64 option" where
  "clean_price v =
     (case v of
        PStr price_str \<Rightarrow>
          if price_str = [] then Inr None
          else
            let t = strip price_str in
            if str_in ''Unavailable'' t \<or> str_in ''unavailable'' t then Inr None
            else (case search_price t of
                    Some g \<Rightarrow>
                      (case py_float (filter (\<lambda>c. c \<noteq> CHR '','') g) of
                         Inl e \<Rightarrow> Inl ValueError
                       | Inr price_usd \<Rightarrow> Inr (Some (float_times price_usd USD_TO_IDR_RATE)))
                  | None \<Rightarrow> Inr None)
      | _ \<Rightarrow> Inr None)"

definition clean_rating :: "pyval \<Rightarrow> py_error + float64 option" where
  "clean_rating v =
     (case v of
        PStr rating_str \<Rightarrow>
          if rating_str = [] then Inr None
          else
            let t = strip rating_str in
            if str_in ''Invalid'' t \<or> str_in ''Not Rated'' t then Inr None
            else (case search_rating t of
                    Some g \<Rightarrow>
                      (case py_float g of Inl e \<Rightarrow> Inl ValueError | Inr x \<Rightarrow> Inr (Some x))
                  | None \<Rightarrow>
                      (case search_number t of
                         Some g \<Rightarrow>
                           (case py_float g of Inl e \<Rightarrow> Inl ValueError | Inr x \<Rightarrow> Inr (Some x))
                       | None \<Rightarrow> Inr None))
      | _ \<Rightarrow> Inr None)"

definition clean_colors :: "pyval \<Rightarrow> py_error + int option" where
  "clean_colors v =
     (case v of
        PStr colors_str \<Rightarrow>
          if colors_str = [] then Inr None
          else
            let t = strip colors_str in
            (case search_digits t of
               Some g \<Rightarrow> (case py_int g of Inl e \<Rightarrow> Inl ValueError | Inr n \<Rightarrow> Inr (Some n))
             | None \<Rightarrow> Inr None)
      | _ \<Rightarrow> Inr None)"

definition clean_size :: "pyval \<Rightarrow> py_error + string option" where
  "clean_size v =
     (case v of
        PStr size_str \<Rightarrow>
          if size_str = [] then Inr None
          else
            let size = strip (replace_del ''Size:'' (strip size_str)) in
            if size \<noteq> [] then Inr (Some size) else Inr None
      | _ \<Rightarrow> Inr None)"

definition clean_gender :: "pyval \<Rightarrow> py_error + string option" where
  "clean_gender v =
     (case v of
        PStr gender_str \<Rightarrow>
          if gender_str = [] then Inr None
          else
            let gender = strip (replace_del ''Gender:'' (strip gender_str)) in
            if gender \<noteq> [] then Inr (Some gender) else Inr None
      | _ \<Rightarrow> Inr None)"

section \<open>The transform stage\<close>

text \<open>
  A product dictionary as \<^verbatim>\<open>parse_product\<close> and \<^verbatim>\<open>scrape_all_pages\<close> build it: its keys
  are among the seven below, and \<open>None\<close> in a field says that the dictionary lacks the
  key. The title and the timestamp are strings; the five raw fields hold any cell value
  (\<^verbatim>\<open>parse_product\<close> stores \<^verbatim>\<open>None\<close> under \<^verbatim>\<open>'Price'\<close> when the card has no price label).
\<close>

record raw_product =
  Title :: "string option"
  Price :: "pyval option"
  Rating :: "pyval option"
  Colors :: "pyval option"
  Size :: "pyval option"
  Gender :: "pyval option"
  timestamp :: "string option"

text \<open>
  A row of the data frame once the cleaners have run. Every cell can be null (\<open>None\<close>):
  pandas puts \<^verbatim>\<open>nan\<close> where a record lacks a key, and a cleaner returns \<^verbatim>\<open>None\<close> for
  missing.
\<close>

record product_row =
  row_title :: "string option"
  row_price :: "float64 option"
  row_rating :: "float64 option"
  row_colors :: "int option"
  row_size :: "string option"
  row_gender :: "string option"
  row_timestamp :: "string option"

record dataset =
  columns :: "string list"
  rows :: "product_row list"

text \<open>
  \<open>ValidationError\<close> is the \<^verbatim>\<open>ValueError("Validation error during transformation: ...")\<close>
  of the first handler of \<^verbatim>\<open>transform_data\<close>, \<open>TransformationFailed\<close> the
  \<^verbatim>\<open>Exception("Transformation failed: ...")\<close> of the second; the cause is what was raised
  inside.
\<close>

datatype transform_cause =
  EmptyInput | CleaningFailed | CannotConvertNA | KeyError string | OverflowError

datatype transform_error = ValidationError transform_cause | TransformationFailed transform_cause

definition bind_err :: "'e + 'a \<Rightarrow> ('a \<Rightarrow> 'e + 'b) \<Rightarrow> 'e + 'b" where
  "bind_err m f = (case m of Inl e \<Rightarrow> Inl e | Inr x \<Rightarrow> f x)"

text \<open>
  \<^verbatim>\<open>pd.DataFrame(data)\<close> has a column for every key that some record has.
  \<^verbatim>\<open>df[name]\<close> raises \<^verbatim>\<open>KeyError\<close> for any other name, which reaches the second handler.
\<close>

definition key_present :: "(raw_product \<Rightarrow> 'a option) \<Rightarrow> raw_product list \<Rightarrow> bool" where
  "key_present k data = list_ex (\<lambda>d. k d \<noteq> None) data"

definition get_column ::
  "string \<Rightarrow> (raw_product \<Rightarrow> 'a option) \<Rightarrow> raw_product list \<Rightarrow> transform_error + 'a option list" where
  "get_column name k data =
     (if key_present k data then Inr (map k data)
      else Inl (TransformationFailed (KeyError name)))"

text \<open>The cell of a record in a column: \<^verbatim>\<open>nan\<close> where the record lacks the key.\<close>

fun cell_value :: "pyval option \<Rightarrow> pyval" where
  "cell_value None = PNaN"
| "cell_value (Some v) = v"

text \<open>\<^verbatim>\<open>series.apply(f)\<close>: \<open>f\<close> on every cell in row order; the first exception ends it.\<close>

fun apply_series :: "('a \<Rightarrow> py_error + 'b) \<Rightarrow> 'a list \<Rightarrow> py_error + 'b list" where
  "apply_series f [] = Inr []"
| "apply_series f (x # xs) =
     (case f x of
        Inl e \<Rightarrow> Inl e
      | Inr y \<Rightarrow> (case apply_series f xs of Inl e \<Rightarrow> Inl e | Inr ys \<Rightarrow> Inr (y # ys)))"

text \<open>\<^verbatim>\<open>df[name] = df[name].apply(f)\<close>; the cleaner's \<^verbatim>\<open>ValueError\<close> reaches the first handler.\<close>

definition clean_column ::
  "string \<Rightarrow> (raw_product \<Rightarrow> pyval option) \<Rightarrow> (pyval \<Rightarrow> py_error + 'b option) \<Rightarrow>
   raw_product list \<Rightarrow> transform_error + 'b option list" where
  "clean_column name k f data =
     bind_err (get_column name k data) (\<lambda>col.
       case apply_series f (map cell_value col) of
         Inl e \<Rightarrow> Inl (ValidationError CleaningFailed)
       | Inr ys \<Rightarrow> Inr ys)"

text \<open>
  The colour counts that \<^verbatim>\<open>clean_colors\<close> returns are Python integers, and pandas chooses
  how the column holds them when \<^verbatim>\<open>apply\<close> returns. It reads the cells in their order.
  Every count it reads is converted to a float as well, which raises \<^verbatim>\<open>OverflowError\<close>
  for a count too large for any float; the error reaches the second handler. A count
  outside the uint64 range that is read before any null cell ends the reading: the
  column stays one of Python objects. \<open>scan_colors\<close> is that reading; its first argument
  says whether a null cell has been read, its result whether the column stays one of
  objects.
\<close>

datatype colors_dtype = Int64 | UInt64 | Float64 | Object

definition fits_int64 :: "int \<Rightarrow> bool" where
  "fits_int64 n = (- (2 ^ 63) \<le> n \<and> n < 2 ^ 63)"

definition fits_uint64 :: "int \<Rightarrow> bool" where
  "fits_uint64 n = (0 \<le> n \<and> n < 2 ^ 64)"

fun is_finite :: "float64 \<Rightarrow> bool" where
  "is_finite (Finite y) = True"
| "is_finite PlusInf = False"
| "is_finite MinusInf = False"

fun scan_colors :: "bool \<Rightarrow> int option list \<Rightarrow> transform_error + bool" where
  "scan_colors null [] = Inr False"
| "scan_colors null (None # cells) = scan_colors True cells"
| "scan_colors null (Some n # cells) =
     (if \<not> is_finite (round64 (of_int n)) then Inl (TransformationFailed OverflowError)
      else if \<not> null \<and> \<not> fits_uint64 n then Inr True
      else scan_colors null cells)"

text \<open>
  When the reading has come to the end of the cells: a column of null cells only stays
  one of objects; a column with a null cell and a count is a float64 column; a column
  of counts is an int64 column when every count fits, and a uint64 column otherwise.
\<close>

definition infer_colors_dtype :: "int option list \<Rightarrow> transform_error + colors_dtype" where
  "infer_colors_dtype cells =
     bind_err (scan_colors False cells) (\<lambda>objects.
       Inr (if objects \<or> list_all (\<lambda>c. c = None) cells then Object
            else if list_ex (\<lambda>c. c = None) cells then Float64
            else if list_all (\<lambda>c. case c of None \<Rightarrow> True | Some n \<Rightarrow> fits_int64 n) cells
            then Int64
            else UInt64))"

text \<open>
  In a float64 column a count is the float nearest to it; the float is an integer, and
  the row keeps that integer. (The reading above has found that float finite.) In
  every other column the count is kept as it is.
\<close>

definition stored_color :: "colors_dtype \<Rightarrow> int \<Rightarrow> int" where
  "stored_color dtype n =
     (if dtype = Float64
      then (case round64 (of_int n) of Finite y \<Rightarrow> \<lfloor>y\<rfloor> | _ \<Rightarrow> n)
      else n)"

definition store_colors :: "colors_dtype \<Rightarrow> int option list \<Rightarrow> int option list" where
  "store_colors dtype cells = map (map_option (stored_color dtype)) cells"

definition make_rows ::
  "string option list \<Rightarrow> float64 option list \<Rightarrow> float64 option list \<Rightarrow> int option list \<Rightarrow>
   string option list \<Rightarrow> string option list \<Rightarrow> string option list \<Rightarrow> product_row list" where
  "make_rows ts ps rs cs ss gs tss =
     map (\<lambda>(t, p, r, c, s, g, st).
            \<lparr>row_title = t, row_price = p, row_rating = r, row_colors = c,
             row_size = s, row_gender = g, row_timestamp = st\<rparr>)
         (zip ts (zip ps (zip rs (zip cs (zip ss (zip gs tss))))))"

text \<open>\<^verbatim>\<open>df.dropna()\<close>: only the rows without a null cell stay.\<close>

definition no_null :: "product_row \<Rightarrow> bool" where
  "no_null r =
     (row_title r \<noteq> None \<and> row_price r \<noteq> None \<and> row_rating r \<noteq> None \<and> row_colors r \<noteq> None \<and>
      row_size r \<noteq> None \<and> row_gender r \<noteq> None \<and> row_timestamp r \<noteq> None)"

definition dropna :: "product_row list \<Rightarrow> product_row list" where
  "dropna df = filter no_null df"

text \<open>\<^verbatim>\<open>df.drop_duplicates()\<close>: of equal rows the first stays.\<close>

fun drop_duplicates :: "product_row list \<Rightarrow> product_row list" where
  "drop_duplicates [] = []"
| "drop_duplicates (r # df) = r # drop_duplicates (filter (\<lambda>r'. r' \<noteq> r) df)"

text \<open>
  \<^verbatim>\<open>astype\<close> on the cells of a column. A string in a string column and a float in a
  float column are kept. On a null cell \<^verbatim>\<open>astype(str)\<close> gives the text of the null
  (\<^verbatim>\<open>'nan'\<close> in the title column, \<^verbatim>\<open>'None'\<close> in a cleaned column), \<^verbatim>\<open>astype(float)\<close> keeps
  the null and \<^verbatim>\<open>astype(int)\<close> raises an error of class \<^verbatim>\<open>ValueError\<close>.
\<close>

fun astype_str :: "string \<Rightarrow> string option \<Rightarrow> string option" where
  "astype_str null None = Some null"
| "astype_str null (Some s) = Some s"

fun astype_float :: "float64 option \<Rightarrow> float64 option" where
  "astype_float None = None"
| "astype_float (Some x) = Some x"

text \<open>
  \<^verbatim>\<open>astype(int)\<close> makes the colour column an int64 column. From int64 nothing changes.
  From uint64 the 64 bits are read as a signed number, so a count of \<open>2 ^ 63\<close> or more
  wraps around. From float64 a value in the int64 range is kept and a value outside
  it, for which the conversion is undefined, comes out as \<open>- 2 ^ 63\<close>, its result on
  x86-64. From Python objects a count outside the int64 range raises
  \<^verbatim>\<open>OverflowError\<close>, which reaches the second handler.
\<close>

fun astype_int :: "colors_dtype \<Rightarrow> int option \<Rightarrow> transform_error + int option" where
  "astype_int dtype None = Inl (ValidationError CannotConvertNA)"
| "astype_int Int64 (Some n) = Inr (Some n)"
| "astype_int UInt64 (Some n) = Inr (Some (if n < 2 ^ 63 then n else n - 2 ^ 64))"
| "astype_int Float64 (Some n) = Inr (Some (if fits_int64 n then n else - (2 ^ 63)))"
| "astype_int Object (Some n) =
     (if fits_int64 n then Inr (Some n) else Inl (TransformationFailed OverflowError))"

fun astype_int_column ::
  "colors_dtype \<Rightarrow> product_row list \<Rightarrow> transform_error + product_row list" where
  "astype_int_column dtype [] = Inr []"
| "astype_int_column dtype (r # df) =
     bind_err (astype_int dtype (row_colors r)) (\<lambda>c.
     bind_err (astype_int_column dtype df) (\<lambda>df'. Inr (r\<lparr>row_colors := c\<rparr> # df')))"

definition columns_order :: "string list" where
  "columns_order = [''Title'', ''Price'', ''Rating'', ''Colors'', ''Size'', ''Gender'', ''timestamp'']"

text \<open>The six \<^verbatim>\<open>astype\<close> lines of \<^verbatim>\<open>transform_data\<close>, in their order.\<close>

definition coerce_types ::
  "colors_dtype \<Rightarrow> product_row list \<Rightarrow> transform_error + product_row list" where
  "coerce_types dtype df =
     (let df = map (\<lambda>r. r\<lparr>row_title := astype_str ''nan'' (row_title r)\<rparr>) df;
          df = map (\<lambda>r. r\<lparr>row_price := astype_float (row_price r)\<rparr>) df;
          df = map (\<lambda>r. r\<lparr>row_rating := astype_float (row_rating r)\<rparr>) df
      in
      bind_err (astype_int_column dtype df) (\<lambda>df.
        let df = map (\<lambda>r. r\<lparr>row_size := astype_str ''None'' (row_size r)\<rparr>) df;
            df = map (\<lambda>r. r\<lparr>row_gender := astype_str ''None'' (row_gender r)\<rparr>) df
        in Inr df))"

text \<open>
  \<^verbatim>\<open>transform_data\<close>, line by line. The rows are kept with all seven cells throughout;
  when no record has the \<^verbatim>\<open>'timestamp'\<close> key the frame lacks that column and the
  selection \<^verbatim>\<open>df[columns_order]\<close> raises whatever the rows are.
\<close>

definition transform_data :: "raw_product list \<Rightarrow> transform_error + dataset" where
  "transform_data data =
     (if data = [] then Inl (ValidationError EmptyInput)
      else
        bind_err (clean_column ''Price'' Price clean_price data) (\<lambda>prices.
        bind_err (clean_column ''Rating'' Rating clean_rating data) (\<lambda>ratings.
        bind_err (clean_column ''Colors'' Colors clean_colors data) (\<lambda>colours.
        bind_err (infer_colors_dtype colours) (\<lambda>dtype.
        let colours = store_colors dtype colours in
        bind_err (clean_column ''Size'' Size clean_size data) (\<lambda>sizes.
        bind_err (clean_column ''Gender'' Gender clean_gender data) (\<lambda>genders.
        bind_err (get_column ''Title'' Title data) (\<lambda>titles.
          let df = make_rows titles prices ratings colours sizes genders (map timestamp data);
              df = filter (\<lambda>r. row_title r \<noteq> Some ''Unknown Product'') df;
              df = dropna df;
              df = drop_duplicates df
          in
          bind_err (coerce_types dtype df) (\<lambda>df.
            if key_present timestamp data
            then Inr \<lparr>columns = columns_order, rows = df\<rparr>
            else Inl (TransformationFailed (KeyError ''timestamp'')))))))))))"

section \<open>The extraction stage\<close>

text \<open>
  What \<^verbatim>\<open>parse_product\<close> reads of a card, as BeautifulSoup finds it: the stripped text of
  the \<^verbatim>\<open>h3.product-title\<close> element if there is one; whether there is a
  \<^verbatim>\<open>div.price-container\<close> and the text of the \<^verbatim>\<open>span.price\<close> inside it if there is one;
  the text of a \<^verbatim>\<open>p.price\<close> on the card; the texts of the paragraphs whose style
  contains \<^verbatim>\<open>777\<close>, in document order.
\<close>

record card =
  title_elem :: "string option"
  price_container :: "string option option"
  price_p :: "string option"
  details :: "string list"

fun text_or_none :: "string option \<Rightarrow> pyval" where
  "text_or_none None = PNone"
| "text_or_none (Some s) = PStr s"

definition classify :: "raw_product \<Rightarrow> string \<Rightarrow> raw_product" where
  "classify product text =
     (if str_in ''Rating:'' text then product\<lparr>Rating := Some (PStr text)\<rparr>
      else if str_in ''Colors'' text then product\<lparr>Colors := Some (PStr text)\<rparr>
      else if str_in ''Size:'' text then product\<lparr>Size := Some (PStr text)\<rparr>
      else if str_in ''Gender:'' text then product\<lparr>Gender := Some (PStr text)\<rparr>
      else product)"

definition second_chance :: "raw_product \<Rightarrow> string \<Rightarrow> raw_product" where
  "second_chance product text =
     (if str_in ''Rated'' text \<or> str_in ''Rating'' text
      then product\<lparr>Rating := Some (PStr text)\<rparr> else product)"

text \<open>\<^verbatim>\<open>parse_product\<close>; every failure leaves it as a \<^verbatim>\<open>ValueError\<close>.\<close>

definition parse_product :: "card \<Rightarrow> py_error + raw_product" where
  "parse_product c =
     (case title_elem c of
        None \<Rightarrow> Inl ValueError
      | Some t \<Rightarrow>
          let product =
                \<lparr>Title = Some t,
                 Price = Some (case price_container c of
                                 Some price_elem \<Rightarrow> text_or_none price_elem
                               | None \<Rightarrow> text_or_none (price_p c)),
                 Rating = None, Colors = None, Size = None, Gender = None, timestamp = None\<rparr>;
              product = foldl classify product (details c);
              product = (if Rating product = None
                         then foldl second_chance product (details c) else product)
          in Inr product)"

text \<open>
  \<open>ParseError\<close> is the \<^verbatim>\<open>ValueError("Error parsing page: ...")\<close> of \<^verbatim>\<open>parse_page\<close>; the cause
  is \<open>InvalidContent\<close> for "Invalid HTML content provided" and \<open>NoProductCards\<close> for
  "No product cards found on the page".
\<close>

datatype parse_cause = InvalidContent | NoProductCards

datatype parse_error = ParseError parse_cause

text \<open>The loop over the cards: a card whose parse raises \<^verbatim>\<open>ValueError\<close> is skipped.\<close>

fun parse_cards :: "card list \<Rightarrow> raw_product list \<Rightarrow> raw_product list" where
  "parse_cards [] products = products"
| "parse_cards (c # cs) products =
     (case parse_product c of
        Inl e \<Rightarrow> parse_cards cs products
      | Inr product \<Rightarrow> parse_cards cs (products @ [product]))"

text \<open>
  \<^verbatim>\<open>parse_page\<close>. The markup is a string or absent (\<open>None\<close>). BeautifulSoup's
  \<^verbatim>\<open>find_all('div', class_='collection-card')\<close> is the parameter \<open>find_cards\<close>.
\<close>

definition parse_page ::
  "(string \<Rightarrow> card list) \<Rightarrow> string option \<Rightarrow> parse_error + raw_product list" where
  "parse_page find_cards html_content =
     (case html_content of
        None \<Rightarrow> Inl (ParseError InvalidContent)
      | Some html \<Rightarrow>
          if html = [] then Inl (ParseError InvalidContent)
          else
            let product_cards = find_cards html in
            if product_cards = [] then Inl (ParseError NoProductCards)
            else Inr (parse_cards product_cards []))"

text \<open>
  The world outside the scraper: the clock, the site (the text it serves at an address,
  or \<open>None\<close> when the request fails in transport or with an error status), the
  addresses requested so far, and how many times the clock was read. A request and a
  politeness sleep each let time pass.
\<close>

record world =
  now :: nat
  server :: "string \<Rightarrow> string option"
  requests :: "string list"
  clock_reads :: nat

definition BASE_URL :: string where
  "BASE_URL = ''https://fashion-studio.dicoding.dev/''"

text \<open>\<^verbatim>\<open>str(n)\<close> in an f-string: the decimal digits of \<open>n\<close>.\<close>

fun str_nat :: "nat \<Rightarrow> string" where
  "str_nat n =
     (if n < 10 then [''0123456789'' ! n]
      else str_nat (n div 10) @ [''0123456789'' ! (n mod 10)])"

definition str_int :: "int \<Rightarrow> string" where
  "str_int i = (if i < 0 then CHR ''-'' # str_nat (nat (- i)) else str_nat (nat i))"

text \<open>
  \<open>UnexpectedError n cause\<close> is the \<^verbatim>\<open>Exception("Unexpected error fetching page n: ...")\<close>
  that the last handler of \<^verbatim>\<open>fetch_page\<close> raises around the guard's
  \<^verbatim>\<open>ValueError("Invalid page number: n. Must be between 1 and 50.")\<close>; \<open>FetchFailed n\<close> is
  the \<^verbatim>\<open>RequestException("Failed to fetch page n: ...")\<close>.
\<close>

datatype fetch_cause = InvalidPageNumber int

datatype fetch_error = UnexpectedError int fetch_cause | FetchFailed int

text \<open>The class of the exception that reaches the caller of \<^verbatim>\<open>fetch_page\<close>.\<close>

datatype exception_class = ValueErrorClass | RequestExceptionClass | PlainException

fun raised_class :: "fetch_error \<Rightarrow> exception_class" where
  "raised_class (UnexpectedError n cause) = PlainException"
| "raised_class (FetchFailed n) = RequestExceptionClass"

definition fetch_page :: "world \<Rightarrow> int \<Rightarrow> (fetch_error + string) \<times> world" where
  "fetch_page w page_number =
     (if page_number < 1 \<or> page_number > 50
      then (Inl (UnexpectedError page_number (InvalidPageNumber page_number)), w)
      else
        let url = (if page_number = 1 then BASE_URL
                   else BASE_URL @ ''page'' @ str_int page_number);
            w' = w\<lparr>requests := requests w @ [url], now := now w + 1\<rparr>
        in (case server w url of
              None \<Rightarrow> (Inl (FetchFailed page_number), w')
            | Some text \<Rightarrow> (Inr text, w')))"

text \<open>
  The loop of \<^verbatim>\<open>scrape_all_pages\<close> over the page numbers still to visit; a page whose
  fetch or parse raises is skipped.
\<close>

fun scrape_pages ::
  "(string \<Rightarrow> card list) \<Rightarrow> string \<Rightarrow> int \<Rightarrow> world \<Rightarrow> int list \<Rightarrow> raw_product list \<Rightarrow>
   raw_product list \<times> world" where
  "scrape_pages find_cards stamp end_page w [] all_products = (all_products, w)"
| "scrape_pages find_cards stamp end_page w (page_num # pages) all_products =
     (case fetch_page w page_num of
        (Inl e, w') \<Rightarrow> scrape_pages find_cards stamp end_page w' pages all_products
      | (Inr html_content, w') \<Rightarrow>
          (case parse_page find_cards (Some html_content) of
             Inl e \<Rightarrow> scrape_pages find_cards stamp end_page w' pages all_products
           | Inr products \<Rightarrow>
               let products = map (\<lambda>product. product\<lparr>timestamp := Some stamp\<rparr>) products;
                   all_products = all_products @ products;
                   w'' = (if page_num < end_page then w'\<lparr>now := now w' + 1\<rparr> else w')
               in scrape_pages find_cards stamp end_page w'' pages all_products))"

text \<open>
  \<open>ScrapeError\<close> is the \<^verbatim>\<open>Exception("Error during scraping: Invalid page range: ...")\<close>.
  \<open>strftime\<close> is the formatting of the clock's reading as text.
\<close>

datatype scrape_error = ScrapeError int int

definition scrape_all_pages ::
  "(nat \<Rightarrow> string) \<Rightarrow> (string \<Rightarrow> card list) \<Rightarrow> world \<Rightarrow> int \<Rightarrow> int \<Rightarrow>
   (scrape_error + raw_product list) \<times> world" where
  "scrape_all_pages strftime find_cards w start_page end_page =
     (if start_page < 1 \<or> end_page > 50 \<or> start_page > end_page
      then (Inl (ScrapeError start_page end_page), w)
      else
        let stamp = strftime (now w);
            w = w\<lparr>clock_reads := clock_reads w + 1\<rparr>;
            (all_products, w) = scrape_pages find_cards stamp end_page w [start_page..end_page] []
        in (Inr all_products, w))"

section \<open>Notions used in the statements\<close>

text \<open>The value a cleaner returned, missing when it raised.\<close>

fun value_of :: "'e + 'a option \<Rightarrow> 'a option" where
  "value_of (Inl e) = None"
| "value_of (Inr x) = x"

text \<open>The colour counts of a batch as \<^verbatim>\<open>clean_colors\<close> returns them, and the kind of column
  pandas makes of them.\<close>

definition colors_cells :: "raw_product list \<Rightarrow> int option list" where
  "colors_cells data = map (\<lambda>d. value_of (clean_colors (cell_value (Colors d)))) data"

definition colors_readable :: "int option list \<Rightarrow> bool" where
  "colors_readable cells = (\<not> isl (scan_colors False cells))"

definition batch_dtype :: "raw_product list \<Rightarrow> colors_dtype" where
  "batch_dtype data =
     (case infer_colors_dtype (colors_cells data) of Inl e \<Rightarrow> Object | Inr dtype \<Rightarrow> dtype)"

text \<open>
  The row of a record once every cleaner has run on its cell, in a frame whose colour
  column is of the given kind.
\<close>

definition cleaned_row :: "colors_dtype \<Rightarrow> raw_product \<Rightarrow> product_row" where
  "cleaned_row dtype d =
     \<lparr>row_title = Title d,
      row_price = value_of (clean_price (cell_value (Price d))),
      row_rating = value_of (clean_rating (cell_value (Rating d))),
      row_colors = map_option (stored_color dtype) (value_of (clean_colors (cell_value (Colors d)))),
      row_size = value_of (clean_size (cell_value (Size d))),
      row_gender = value_of (clean_gender (cell_value (Gender d))),
      row_timestamp = timestamp d\<rparr>"

text \<open>The rows that are left when the duplicates have been dropped.\<close>

definition kept_rows :: "raw_product list \<Rightarrow> product_row list" where
  "kept_rows data =
     drop_duplicates (dropna (filter (\<lambda>r. row_title r \<noteq> Some ''Unknown Product'')
       (map (cleaned_row (batch_dtype data)) data)))"

text \<open>The colour count of a row after \<^verbatim>\<open>astype(int)\<close>, where that does not raise.\<close>

definition cast_color :: "colors_dtype \<Rightarrow> int \<Rightarrow> int" where
  "cast_color dtype n =
     (case dtype of
        Int64 \<Rightarrow> n
      | UInt64 \<Rightarrow> if n < 2 ^ 63 then n else n - 2 ^ 64
      | Float64 \<Rightarrow> if fits_int64 n then n else - (2 ^ 63)
      | Object \<Rightarrow> n)"

definition cast_row :: "colors_dtype \<Rightarrow> product_row \<Rightarrow> product_row" where
  "cast_row dtype r = r\<lparr>row_colors := map_option (cast_color dtype) (row_colors r)\<rparr>"

definition colors_castable :: "colors_dtype \<Rightarrow> product_row list \<Rightarrow> bool" where
  "colors_castable dtype df =
     list_all (\<lambda>r. case row_colors r of
                     None \<Rightarrow> True
                   | Some n \<Rightarrow> dtype = Object \<longrightarrow> fits_int64 n) df"

definition final_rows :: "raw_product list \<Rightarrow> product_row list" where
  "final_rows data = map (cast_row (batch_dtype data)) (kept_rows data)"


subsection \<open>The first numeric token, in the specification's words\<close>

text \<open>
  The specification of \<^verbatim>\<open>clean_price\<close> speaks of the first numeric token of the text:
  digit groups possibly separated by commas, with an optional decimal part. Read
  directly: skip to the first character that is a digit or a comma, take the run of
  digits and commas there and, if a point follows, the point and the digits after it.
\<close>

definition spec_price_token :: "string \<Rightarrow> string option" where
  "spec_price_token s =
     (let r = dropWhile (\<lambda>c. \<not> is_digit_or_comma c) s in
      if r = [] then None
      else Some (takeWhile is_digit_or_comma r @
                 (case dropWhile is_digit_or_comma r of
                    [] \<Rightarrow> []
                  | c # r' \<Rightarrow> if c = CHR ''.'' then c # takeWhile is_digit r' else [])))"

subsection \<open>The records of a dataset\<close>

text \<open>
  The rows of a dataset as a list of dictionaries again, every cell under the key of its
  column with the type the column has: floats for price and rating, an integer for the
  colour count, strings elsewhere.
\<close>

definition record_of_row :: "product_row \<Rightarrow> raw_product" where
  "record_of_row r =
     \<lparr>Title = row_title r,
      Price = Some (case row_price r of None \<Rightarrow> PNaN | Some x \<Rightarrow> PFloat x),
      Rating = Some (case row_rating r of None \<Rightarrow> PNaN | Some x \<Rightarrow> PFloat x),
      Colors = Some (case row_colors r of None \<Rightarrow> PNaN | Some n \<Rightarrow> PInt n),
      Size = Some (case row_size r of None \<Rightarrow> PNone | Some s \<Rightarrow> PStr s),
      Gender = Some (case row_gender r of None \<Rightarrow> PNone | Some s \<Rightarrow> PStr s),
      timestamp = row_timestamp r\<rparr>"

definition to_records :: "dataset \<Rightarrow> raw_product list" where
  "to_records ds = map record_of_row (rows ds)"

subsection \<open>Sample inputs\<close>

definition sample_row :: raw_product where
  "sample_row =
     \<lparr>Title = Some ''T-shirt 2'', Price = Some (PStr ''$102.15''),
      Rating = Some (PStr ''Rating: 3.9 / 5''), Colors = Some (PStr ''3 Colors''),
      Size = Some (PStr ''Size: M''), Gender = Some (PStr ''Gender: Women''),
      timestamp = Some ''2025-01-02 10:00:00''\<rparr>"

text \<open>The float nearest to 3.9 is 8782019273372467 / 2 ^ 51.\<close>

definition sample_clean_row :: product_row where
  "sample_clean_row =
     \<lparr>row_title = Some ''T-shirt 2'', row_price = Some (Finite 1634400),
      row_rating = Some (Finite (8782019273372467 / 2 ^ 51)),
      row_colors = Some 3, row_size = Some ''M'', row_gender = Some ''Women'',
      row_timestamp = Some ''2025-01-02 10:00:00''\<rparr>"

text \<open>A valid record, a sentinel title, a duplicate, and an unavailable price.\<close>

definition sample_batch :: "raw_product list" where
  "sample_batch =
     [sample_row, sample_row\<lparr>Title := Some ''Unknown Product''\<rparr>, sample_row,
      sample_row\<lparr>Price := Some (PStr ''Price Unavailable'')\<rparr>]"

text \<open>
  Two records that differ in their colour counts, ten and eleven times \<open>10 ^ 18\<close>, and a
  third whose colour text has no digit.
\<close>

definition wide_batch :: "raw_product list" where
  "wide_batch =
     [sample_row\<lparr>Colors := Some (PStr ''10000000000000000000 Colors'')\<rparr>,
      sample_row\<lparr>Colors := Some (PStr ''11000000000000000000 Colors'')\<rparr>,
      sample_row\<lparr>Colors := Some (PStr ''Colors'')\<rparr>]"

definition quiet_world :: world where
  "quiet_world = \<lparr>now = 0, server = (\<lambda>url. None), requests = [], clock_reads = 0\<rparr>"

definition two_page_site :: world where
  "two_page_site =
     \<lparr>now = 100,
      server = (\<lambda>url. if url = BASE_URL then Some ''one''
                      else if url = BASE_URL @ ''page2'' then Some ''two'' else None),
      requests = [], clock_reads = 0\<rparr>"

text \<open>A page with one card, whose title is the page's text.\<close>

definition titled_card :: "string \<Rightarrow> card list" where
  "titled_card html =
     [\<lparr>title_elem = Some html, price_container = None, price_p = None, details = []\<rparr>]"

definition untitled_card :: card where
  "untitled_card =
     \<lparr>title_elem = None, price_container = Some (Some ''$10.00''), price_p = None,
      details = [''Rating: 4.0 / 5'']\<rparr>"

section \<open>Rounding\<close>

lemma pow2_pos: "0 < pow2 e"
  by (simp add: pow2_def)

lemma round_half_even_nonneg: "0 \<le> y \<Longrightarrow> 0 \<le> round_half_even y"
  by (simp add: round_half_even_def Let_def)

lemma round_magnitude_nonneg:
  assumes "0 \<le> x" and "round_magnitude x = Some y"
  shows "0 \<le> y"
proof -
  define u where "u = pow2 (binade_between x (- 1022) 1023 - 52)"
  have u: "0 < u" unfolding u_def by (rule pow2_pos)
  then have "0 \<le> x / u" using assms(1) by simp
  then have "0 \<le> round_half_even (x / u)" by (rule round_half_even_nonneg)
  then have "0 \<le> of_int (round_half_even (x / u)) * u" using u by simp
  moreover have "y = of_int (round_half_even (x / u)) * u"
    using assms(2) unfolding round_magnitude_def Let_def u_def [symmetric]
    by (simp split: if_splits)
  ultimately show ?thesis by simp
qed

lemma round64_nonneg: "0 \<le> x \<Longrightarrow> float_nonneg (round64 x)"
  by (auto simp: round64_def float_nonneg_def dest: round_magnitude_nonneg split: option.splits)

lemma float_times_nonneg: "float_nonneg x \<Longrightarrow> 0 \<le> r \<Longrightarrow> float_nonneg (float_times x r)"
  by (cases x) (simp_all add: float_times_def float_nonneg_def round64_nonneg [unfolded float_nonneg_def])

section \<open>Evaluation of the sample inputs\<close>

lemmas float_eval =
  round64_def round_magnitude_def binade_between.simps pow2_def round_half_even_def Let_def

lemmas eval_defs =
  clean_price_def clean_rating_def clean_colors_def clean_size_def clean_gender_def
  strip_def is_space_def is_digit_def is_digit_or_comma_def match_price_at_def price_group_def
  match_rating_at_def number_group_def slash5_def digits_group_def
  py_float_def py_int_def int_max_str_digits_def digits_val_def digit_val_def
  USD_TO_IDR_RATE_def

text \<open>The floats of the sample texts: 102.15, its product with the rate, and 3.9.\<close>

lemma round_102_15: "round64 (10215 / 100) = Finite (3594083608874189 / 2 ^ 45)"
  by (simp add: float_eval)

lemma times_102_15: "float_times (Finite (3594083608874189 / 2 ^ 45)) 16000 = Finite 1634400"
  by (simp add: float_times_def) (simp add: float_eval)

lemma round_3_9: "round64 (39 / 10) = Finite (8782019273372467 / 2 ^ 51)"
  by (simp add: float_eval)

lemmas sample_floats =
  round_102_15 [simplified] times_102_15 [simplified] round_3_9 [simplified]

lemma sample_clean: "cleaned_row Int64 sample_row = sample_clean_row"
  by (simp add: cleaned_row_def sample_row_def sample_clean_row_def stored_color_def eval_defs
        sample_floats)

lemma sample_unavailable:
  "cleaned_row Int64 (sample_row\<lparr>Price := Some (PStr ''Price Unavailable'')\<rparr>) =
     sample_clean_row\<lparr>row_price := None\<rparr>"
  by (simp add: cleaned_row_def sample_row_def sample_clean_row_def stored_color_def eval_defs
        sample_floats)

lemma sample_unknown:
  "cleaned_row Int64 (sample_row\<lparr>Title := Some ''Unknown Product''\<rparr>) =
     sample_clean_row\<lparr>row_title := Some ''Unknown Product''\<rparr>"
  by (simp add: cleaned_row_def sample_row_def sample_clean_row_def stored_color_def eval_defs
        sample_floats)


lemma sample_ok:
  "\<not> isl (clean_price (cell_value (Price sample_row)))"
  "\<not> isl (clean_price (PStr ''Price Unavailable''))"
  "\<not> isl (clean_rating (cell_value (Rating sample_row)))"
  "\<not> isl (clean_colors (cell_value (Colors sample_row)))"
  "\<not> isl (clean_size (cell_value (Size sample_row)))"
  "\<not> isl (clean_gender (cell_value (Gender sample_row)))"
  by (simp_all add: sample_row_def eval_defs)

lemma sample_colors: "value_of (clean_colors (cell_value (Colors sample_row))) = Some 3"
  by (simp add: sample_row_def eval_defs)

lemma sample_keys:
  "Title sample_row \<noteq> None" "Price sample_row \<noteq> None" "Rating sample_row \<noteq> None"
  "Colors sample_row \<noteq> None" "Size sample_row \<noteq> None" "Gender sample_row \<noteq> None"
  "timestamp sample_row \<noteq> None"
  by (simp_all add: sample_row_def)

lemma sample_clean_row_no_null: "no_null sample_clean_row"
  by (simp add: no_null_def sample_clean_row_def)

lemma sample_clean_row_title: "row_title sample_clean_row = Some ''T-shirt 2''"
  by (simp add: sample_clean_row_def)

lemma sample_clean_row_colors: "row_colors sample_clean_row = Some 3"
  by (simp add: sample_clean_row_def)

section \<open>The transform stage: what it returns\<close>

lemma py_error_eq [simp]: "(e :: py_error) = ValueError"
  by (cases e) simp

lemma apply_series_eq:
  "apply_series f xs =
     (if list_all (\<lambda>x. \<not> isl (f x)) xs then Inr (map (\<lambda>x. value_of (f x)) xs)
      else Inl ValueError)"
  by (induction xs) (auto split: sum.splits)

lemma clean_column_eq:
  "clean_column name k f data =
     (if \<not> key_present k data then Inl (TransformationFailed (KeyError name))
      else if list_all (\<lambda>d. \<not> isl (f (cell_value (k d)))) data
      then Inr (map (\<lambda>d. value_of (f (cell_value (k d)))) data)
      else Inl (ValidationError CleaningFailed))"
  by (simp add: clean_column_def get_column_def bind_err_def apply_series_eq list_all_iff o_def)

lemma scan_colors_error:
  "scan_colors null cells = Inl e \<Longrightarrow> e = TransformationFailed OverflowError"
  by (induction null cells rule: scan_colors.induct) (auto split: if_splits)

lemma infer_colors_dtype_eq:
  "infer_colors_dtype (colors_cells data) =
     (if colors_readable (colors_cells data) then Inr (batch_dtype data)
      else Inl (TransformationFailed OverflowError))"
proof (cases "scan_colors False (colors_cells data)")
  case (Inl e)
  then show ?thesis
    using scan_colors_error [OF Inl]
    by (simp add: infer_colors_dtype_def colors_readable_def bind_err_def)
next
  case (Inr b)
  then show ?thesis
    by (simp add: infer_colors_dtype_def colors_readable_def bind_err_def batch_dtype_def)
qed

lemma scan_colors_nulls:
  "list_all (\<lambda>c. c = None) cells \<Longrightarrow> scan_colors null cells = Inr False"
  by (induction cells arbitrary: null) auto

lemma set_drop_duplicates: "set (drop_duplicates df) = set df"
  by (induction df rule: drop_duplicates.induct) auto

lemma distinct_drop_duplicates: "distinct (drop_duplicates df)"
  by (induction df rule: drop_duplicates.induct) (auto simp: set_drop_duplicates)

lemma astype_float_id [simp]: "astype_float x = x"
  by (cases x) simp_all

lemma astype_title_id:
  "\<forall>r \<in> set df. row_title r \<noteq> None \<Longrightarrow>
   map (\<lambda>r. r\<lparr>row_title := astype_str n (row_title r)\<rparr>) df = df"
  by (induction df) auto

lemma astype_size_id:
  "\<forall>r \<in> set df. row_size r \<noteq> None \<Longrightarrow>
   map (\<lambda>r. r\<lparr>row_size := astype_str n (row_size r)\<rparr>) df = df"
  by (induction df) auto

lemma astype_gender_id:
  "\<forall>r \<in> set df. row_gender r \<noteq> None \<Longrightarrow>
   map (\<lambda>r. r\<lparr>row_gender := astype_str n (row_gender r)\<rparr>) df = df"
  by (induction df) auto

lemma astype_int_eq:
  "astype_int dtype (Some n) =
     (if dtype = Object \<and> \<not> fits_int64 n then Inl (TransformationFailed OverflowError)
      else Inr (Some (cast_color dtype n)))"
  by (cases dtype) (simp_all add: cast_color_def)

lemma colors_castable_Cons:
  "colors_castable dtype (r # df) \<longleftrightarrow> colors_castable dtype [r] \<and> colors_castable dtype df"
  by (simp add: colors_castable_def)

lemma astype_int_column_eq:
  "\<forall>r \<in> set df. row_colors r \<noteq> None \<Longrightarrow>
   astype_int_column dtype df =
     (if colors_castable dtype df then Inr (map (cast_row dtype) df)
      else Inl (TransformationFailed OverflowError))"
proof (induction df)
  case Nil
  show ?case by (simp add: colors_castable_def)
next
  case (Cons r df)
  then obtain n where n: "row_colors r = Some n" by auto
  have ih: "astype_int_column dtype df =
     (if colors_castable dtype df then Inr (map (cast_row dtype) df)
      else Inl (TransformationFailed OverflowError))"
    using Cons by simp
  have one: "colors_castable dtype [r] \<longleftrightarrow> \<not> (dtype = Object \<and> \<not> fits_int64 n)"
    by (auto simp: colors_castable_def n)
  show ?case
    unfolding astype_int_column.simps n astype_int_eq ih colors_castable_Cons [of dtype r df] one
    by (simp add: bind_err_def cast_row_def n)
qed

lemma cast_row_cells:
  "row_title (cast_row dtype r) = row_title r" "row_price (cast_row dtype r) = row_price r"
  "row_rating (cast_row dtype r) = row_rating r" "row_size (cast_row dtype r) = row_size r"
  "row_gender (cast_row dtype r) = row_gender r"
  "row_timestamp (cast_row dtype r) = row_timestamp r"
  "row_colors (cast_row dtype r) = map_option (cast_color dtype) (row_colors r)"
  by (simp_all add: cast_row_def)

lemma no_null_cast_row: "no_null (cast_row dtype r) \<longleftrightarrow> no_null r"
  by (simp add: no_null_def cast_row_cells)

lemma coerce_types_eq:
  assumes nn: "\<forall>r \<in> set df. no_null r"
  shows "coerce_types dtype df =
           (if colors_castable dtype df then Inr (map (cast_row dtype) df)
            else Inl (TransformationFailed OverflowError))"
proof -
  have t: "map (\<lambda>r. r\<lparr>row_title := astype_str ''nan'' (row_title r)\<rparr>) df = df"
    using nn by (intro astype_title_id) (simp add: no_null_def)
  have p: "map (\<lambda>r. r\<lparr>row_price := astype_float (row_price r)\<rparr>) df = df"
    by simp
  have r: "map (\<lambda>r. r\<lparr>row_rating := astype_float (row_rating r)\<rparr>) df = df"
    by simp
  have c: "astype_int_column dtype df =
     (if colors_castable dtype df then Inr (map (cast_row dtype) df)
      else Inl (TransformationFailed OverflowError))"
    using nn by (intro astype_int_column_eq) (simp add: no_null_def)
  have nn': "\<forall>r \<in> set (map (cast_row dtype) df). no_null r"
    using nn by (simp add: no_null_cast_row)
  have s: "map (\<lambda>r. r\<lparr>row_size := astype_str ''None'' (row_size r)\<rparr>) (map (cast_row dtype) df)
             = map (cast_row dtype) df"
    using nn' by (intro astype_size_id) (simp add: no_null_def)
  have g: "map (\<lambda>r. r\<lparr>row_gender := astype_str ''None'' (row_gender r)\<rparr>) (map (cast_row dtype) df)
             = map (cast_row dtype) df"
    using nn' by (intro astype_gender_id) (simp add: no_null_def)
  show ?thesis
  proof (cases "colors_castable dtype df")
    case True
    show ?thesis
      unfolding coerce_types_def Let_def t p r c bind_err_def
      using True by (simp only: if_True sum.case s g)
  next
    case False
    show ?thesis
      unfolding coerce_types_def Let_def t p r c bind_err_def
      using False by (simp only: if_False sum.case)
  qed
qed

lemma make_rows_map:
  "make_rows (map f1 data) (map f2 data) (map f3 data) (map f4 data) (map f5 data) (map f6 data)
      (map f7 data) =
   map (\<lambda>d. \<lparr>row_title = f1 d, row_price = f2 d, row_rating = f3 d, row_colors = f4 d,
              row_size = f5 d, row_gender = f6 d, row_timestamp = f7 d\<rparr>) data"
  by (induction data) (simp_all add: make_rows_def)

lemma kept_rows_no_null: "r \<in> set (kept_rows data) \<Longrightarrow> no_null r"
  by (simp add: kept_rows_def set_drop_duplicates dropna_def)

lemma kept_rows_not_unknown:
  "r \<in> set (kept_rows data) \<Longrightarrow> row_title r \<noteq> Some ''Unknown Product''"
  by (simp add: kept_rows_def set_drop_duplicates dropna_def)

lemma kept_rows_cleaned:
  "r \<in> set (kept_rows data) \<Longrightarrow> \<exists>d \<in> set data. r = cleaned_row (batch_dtype data) d"
  by (auto simp: kept_rows_def set_drop_duplicates dropna_def)

lemma final_rows_no_null: "r \<in> set (final_rows data) \<Longrightarrow> no_null r"
  by (auto simp: final_rows_def no_null_cast_row kept_rows_no_null)

lemma final_rows_not_unknown:
  "r \<in> set (final_rows data) \<Longrightarrow> row_title r \<noteq> Some ''Unknown Product''"
  by (auto simp: final_rows_def cast_row_cells kept_rows_not_unknown)

text \<open>
  \<^verbatim>\<open>transform_data\<close> as a chain of tests: which failure comes first, and what is returned
  when there is none.
\<close>

lemma transform_data_eq:
  "transform_data data =
     (if data = [] then Inl (ValidationError EmptyInput)
      else if \<not> key_present Price data then Inl (TransformationFailed (KeyError ''Price''))
      else if \<not> list_all (\<lambda>d. \<not> isl (clean_price (cell_value (Price d)))) data
        then Inl (ValidationError CleaningFailed)
      else if \<not> key_present Rating data then Inl (TransformationFailed (KeyError ''Rating''))
      else if \<not> list_all (\<lambda>d. \<not> isl (clean_rating (cell_value (Rating d)))) data
        then Inl (ValidationError CleaningFailed)
      else if \<not> key_present Colors data then Inl (TransformationFailed (KeyError ''Colors''))
      else if \<not> list_all (\<lambda>d. \<not> isl (clean_colors (cell_value (Colors d)))) data
        then Inl (ValidationError CleaningFailed)
      else if \<not> colors_readable (colors_cells data)
        then Inl (TransformationFailed OverflowError)
      else if \<not> key_present Size data then Inl (TransformationFailed (KeyError ''Size''))
      else if \<not> list_all (\<lambda>d. \<not> isl (clean_size (cell_value (Size d)))) data
        then Inl (ValidationError CleaningFailed)
      else if \<not> key_present Gender data then Inl (TransformationFailed (KeyError ''Gender''))
      else if \<not> list_all (\<lambda>d. \<not> isl (clean_gender (cell_value (Gender d)))) data
        then Inl (ValidationError CleaningFailed)
      else if \<not> key_present Title data then Inl (TransformationFailed (KeyError ''Title''))
      else if \<not> colors_castable (batch_dtype data) (kept_rows data)
        then Inl (TransformationFailed OverflowError)
      else if \<not> key_present timestamp data
        then Inl (TransformationFailed (KeyError ''timestamp''))
      else Inr \<lparr>columns = columns_order, rows = final_rows data\<rparr>)"
proof -
  let ?dt = "batch_dtype data"
  have c: "coerce_types ?dt (kept_rows data) =
             (if colors_castable ?dt (kept_rows data) then Inr (final_rows data)
              else Inl (TransformationFailed OverflowError))"
    unfolding final_rows_def by (rule coerce_types_eq) (simp add: kept_rows_no_null)
  have m: "make_rows (map Title data)
             (map (\<lambda>d. value_of (clean_price (cell_value (Price d)))) data)
             (map (\<lambda>d. value_of (clean_rating (cell_value (Rating d)))) data)
             (map (map_option (stored_color ?dt)) (colors_cells data))
             (map (\<lambda>d. value_of (clean_size (cell_value (Size d)))) data)
             (map (\<lambda>d. value_of (clean_gender (cell_value (Gender d)))) data)
             (map timestamp data) = map (cleaned_row ?dt) data"
    unfolding colors_cells_def map_map by (simp add: make_rows_map cleaned_row_def)
  have k: "drop_duplicates (dropna (filter (\<lambda>r. row_title r \<noteq> Some ''Unknown Product'')
             (map (cleaned_row ?dt) data))) = kept_rows data"
    by (simp add: kept_rows_def)
  note dt = infer_colors_dtype_eq [of data]
  have cells: "map (\<lambda>d. value_of (clean_colors (cell_value (Colors d)))) data = colors_cells data"
    by (simp add: colors_cells_def)
  show ?thesis
    unfolding transform_data_def clean_column_eq get_column_def Let_def
    by (simp add: bind_err_def store_colors_def cells dt m k c del: py_error_eq)
qed

lemma transform_data_Inr:
  assumes "transform_data data = Inr ds"
  shows "ds = \<lparr>columns = columns_order, rows = final_rows data\<rparr>"
  using assms by (simp add: transform_data_eq split: if_splits)

lemma sample_batch_cells: "colors_cells sample_batch = [Some 3, Some 3, Some 3, Some 3]"
  by (simp add: colors_cells_def sample_batch_def sample_colors)

lemma round_3: "round64 3 = Finite 3"
  by (simp add: float_eval)

lemma sample_batch_readable: "colors_readable (colors_cells sample_batch)"
  by (simp add: sample_batch_cells colors_readable_def round_3 fits_uint64_def)

lemma sample_batch_dtype: "batch_dtype sample_batch = Int64"
  by (simp add: batch_dtype_def sample_batch_cells infer_colors_dtype_def bind_err_def round_3
        fits_uint64_def fits_int64_def)

lemma sample_batch_kept: "kept_rows sample_batch = [sample_clean_row]"
  using sample_clean_row_no_null
  by (simp add: kept_rows_def sample_batch_dtype)
    (simp add: sample_batch_def sample_clean sample_unavailable sample_unknown dropna_def
      no_null_def sample_clean_row_title)

lemma cast_int64_id: "cast_row Int64 r = r"
  by (cases "row_colors r") (simp_all add: cast_row_def cast_color_def)

lemma colors_castable_not_object: "dtype \<noteq> Object \<Longrightarrow> colors_castable dtype df"
  by (simp add: colors_castable_def list_all_iff split: option.splits)

lemma sample_batch_transform:
  "transform_data sample_batch = Inr \<lparr>columns = columns_order, rows = [sample_clean_row]\<rparr>"
proof -
  have "data \<noteq> [] \<and> key_present Price data \<and> key_present Rating data \<and>
        key_present Colors data \<and> key_present Size data \<and> key_present Gender data \<and>
        key_present Title data \<and> key_present timestamp data \<and>
        list_all (\<lambda>d. \<not> isl (clean_price (cell_value (Price d)))) data \<and>
        list_all (\<lambda>d. \<not> isl (clean_rating (cell_value (Rating d)))) data \<and>
        list_all (\<lambda>d. \<not> isl (clean_colors (cell_value (Colors d)))) data \<and>
        list_all (\<lambda>d. \<not> isl (clean_size (cell_value (Size d)))) data \<and>
        list_all (\<lambda>d. \<not> isl (clean_gender (cell_value (Gender d)))) data"
    if "data = sample_batch" for data
    unfolding that using sample_keys
    by (auto simp: sample_batch_def key_present_def sample_ok)
  then show ?thesis
    by (simp add: transform_data_eq sample_batch_dtype sample_batch_kept final_rows_def
          cast_int64_id sample_batch_readable colors_castable_not_object)
qed

section \<open>Duplicate rows after the cast of the colour column\<close>

lemma round_wide: "round64 (10 ^ 19) = Finite (10 ^ 19)" "round64 (11 * 10 ^ 18) = Finite (11 * 10 ^ 18)"
  by (simp_all add: float_eval)

lemma wide_cells:
  "colors_cells wide_batch = [Some (10 ^ 19), Some (11 * 10 ^ 18), None]"
  by (simp add: colors_cells_def wide_batch_def sample_row_def eval_defs)

lemma wide_readable: "colors_readable (colors_cells wide_batch)"
  using round_wide by (simp add: wide_cells colors_readable_def fits_uint64_def)

lemma wide_dtype: "batch_dtype wide_batch = Float64"
  using round_wide
  by (simp add: batch_dtype_def wide_cells infer_colors_dtype_def bind_err_def fits_uint64_def)

lemma wide_stored:
  "stored_color Float64 (10 ^ 19) = 10 ^ 19" "stored_color Float64 (11 * 10 ^ 18) = 11 * 10 ^ 18"
  using round_wide by (simp_all add: stored_color_def)

lemma wide_rows:
  "map (cleaned_row Float64) wide_batch =
     [sample_clean_row\<lparr>row_colors := Some (10 ^ 19)\<rparr>,
      sample_clean_row\<lparr>row_colors := Some (11 * 10 ^ 18)\<rparr>,
      sample_clean_row\<lparr>row_colors := None\<rparr>]"
  using wide_cells sample_clean wide_stored
  by (simp add: wide_batch_def cleaned_row_def colors_cells_def sample_clean_row_def)

lemma wide_kept:
  "kept_rows wide_batch =
     [sample_clean_row\<lparr>row_colors := Some (10 ^ 19)\<rparr>,
      sample_clean_row\<lparr>row_colors := Some (11 * 10 ^ 18)\<rparr>]"
  by (simp add: kept_rows_def wide_dtype wide_rows)
    (simp add: dropna_def no_null_def sample_clean_row_def)

lemma wide_final:
  "final_rows wide_batch =
     [sample_clean_row\<lparr>row_colors := Some (- (2 ^ 63))\<rparr>,
      sample_clean_row\<lparr>row_colors := Some (- (2 ^ 63))\<rparr>]"
  by (simp add: final_rows_def wide_dtype wide_kept cast_row_def cast_color_def fits_int64_def)

lemma wide_checks:
  "wide_batch \<noteq> [] \<and> key_present Price wide_batch \<and> key_present Rating wide_batch \<and>
   key_present Colors wide_batch \<and> key_present Size wide_batch \<and> key_present Gender wide_batch \<and>
   key_present Title wide_batch \<and> key_present timestamp wide_batch \<and>
   list_all (\<lambda>d. \<not> isl (clean_price (cell_value (Price d)))) wide_batch \<and>
   list_all (\<lambda>d. \<not> isl (clean_rating (cell_value (Rating d)))) wide_batch \<and>
   list_all (\<lambda>d. \<not> isl (clean_colors (cell_value (Colors d)))) wide_batch \<and>
   list_all (\<lambda>d. \<not> isl (clean_size (cell_value (Size d)))) wide_batch \<and>
   list_all (\<lambda>d. \<not> isl (clean_gender (cell_value (Gender d)))) wide_batch"
  using sample_keys sample_ok
  by (simp add: wide_batch_def key_present_def) (simp add: sample_row_def eval_defs)

text \<open>
  C6. The claim fails on the code for the rows. Of three records alike but for their
  colour texts, "10000000000000000000 Colors", "11000000000000000000 Colors" and
  "Colors", the third has a null colour count, so the column is a float64 column; the
  first two are different rows when the duplicates are dropped, and \<^verbatim>\<open>astype(int)\<close>, which
  runs after that, gives both the same count: \<^verbatim>\<open>transform_data\<close> returns two equal rows.
\<close>

theorem transform_data_duplicate_rows:
  "transform_data wide_batch =
     Inr \<lparr>columns = columns_order,
          rows = [sample_clean_row\<lparr>row_colors := Some (- (2 ^ 63))\<rparr>,
                  sample_clean_row\<lparr>row_colors := Some (- (2 ^ 63))\<rparr>]\<rparr> \<and>
   \<not> distinct [sample_clean_row\<lparr>row_colors := Some (- (2 ^ 63))\<rparr>,
                sample_clean_row\<lparr>row_colors := Some (- (2 ^ 63))\<rparr>]"
  using wide_checks wide_readable
  by (simp add: transform_data_eq wide_dtype wide_final colors_castable_not_object)

text \<open>
  What does hold of every dataset that \<^verbatim>\<open>transform_data\<close> returns: no cell is null, no
  title is the sentinel, and the columns are the seven in their order.
\<close>

lemma transform_data_cells_and_columns:
  assumes "transform_data data = Inr ds"
  shows "(\<forall>r \<in> set (rows ds). no_null r \<and> row_title r \<noteq> Some ''Unknown Product'') \<and>
         columns ds =
           [''Title'', ''Price'', ''Rating'', ''Colors'', ''Size'', ''Gender'', ''timestamp'']"
proof -
  have ds: "ds = \<lparr>columns = columns_order, rows = final_rows data\<rparr>"
    using assms by (rule transform_data_Inr)
  show ?thesis
    by (simp add: ds final_rows_no_null final_rows_not_unknown columns_order_def)
qed

text \<open>
  The rows are distinct when the colour column holds 64-bit integers from the start,
  that is when no colour count is null and every one fits: the cast then changes nothing.
\<close>

lemma transform_data_distinct_int64:
  assumes "transform_data data = Inr ds" and "batch_dtype data = Int64"
  shows "distinct (rows ds)"
proof -
  have ds: "ds = \<lparr>columns = columns_order, rows = final_rows data\<rparr>"
    using assms(1) by (rule transform_data_Inr)
  have "cast_row Int64 = (\<lambda>r. r)"
    by (rule ext) (rule cast_int64_id)
  then have "final_rows data = kept_rows data"
    by (simp add: final_rows_def assms(2))
  then show ?thesis
    by (simp add: ds kept_rows_def distinct_drop_duplicates)
qed

section \<open>A key that no record has\<close>

lemma cleaners_nan:
  "clean_price PNaN = Inr None" "clean_rating PNaN = Inr None" "clean_colors PNaN = Inr None"
  "clean_size PNaN = Inr None" "clean_gender PNaN = Inr None"
  by (simp_all add: clean_price_def clean_rating_def clean_colors_def clean_size_def
        clean_gender_def)








section \<open>The extraction stage: page numbers, cards and the timestamp\<close>

text \<open>
  C8. The claim fails on the code for the kind of the error. For every page number
  below 1 or above 50, \<^verbatim>\<open>fetch_page\<close> fails and the world is as it was, so no request has
  been made; but the \<^verbatim>\<open>ValueError\<close> of the guard is caught by the last handler of
  \<^verbatim>\<open>fetch_page\<close> itself, and what reaches the caller is the plain \<^verbatim>\<open>Exception\<close> of that
  handler, not a \<^verbatim>\<open>ValueError\<close>.
\<close>

theorem fetch_page_invalid_page:
  assumes "page_number < 1 \<or> page_number > 50"
  shows "\<exists>e. fetch_page w page_number = (Inl e, w) \<and>
             e = UnexpectedError page_number (InvalidPageNumber page_number) \<and>
             raised_class e = PlainException \<and> raised_class e \<noteq> ValueErrorClass"
  using assms by (simp add: fetch_page_def)

theorem fetch_page_invalid_page_witness:
  "fetch_page quiet_world 0 = (Inl (UnexpectedError 0 (InvalidPageNumber 0)), quiet_world) \<and>
   raised_class (UnexpectedError 0 (InvalidPageNumber 0)) \<noteq> ValueErrorClass \<and>
   fetch_page quiet_world 51 = (Inl (UnexpectedError 51 (InvalidPageNumber 51)), quiet_world) \<and>
   fetch_page quiet_world (- 1) =
     (Inl (UnexpectedError (- 1) (InvalidPageNumber (- 1))), quiet_world)"
  using fetch_page_invalid_page [of 0 quiet_world]
    fetch_page_invalid_page [of 51 quiet_world]
    fetch_page_invalid_page [of "- 1" quiet_world]
  by simp

lemma parse_cards_untitled:
  "\<forall>c \<in> set cs. title_elem c = None \<Longrightarrow> parse_cards cs products = products"
  by (induction cs arbitrary: products) (simp_all add: parse_product_def)

text \<open>
  C9. When the markup has at least one card and no card has a title, \<^verbatim>\<open>parse_page\<close>
  returns the empty list; it fails for want of product cards exactly when the markup is
  non-empty and no card is found in it.
\<close>

theorem parse_page_untitled_cards:
  "(html \<noteq> [] \<and> find_cards html \<noteq> [] \<and> (\<forall>c \<in> set (find_cards html). title_elem c = None)
      \<longrightarrow> parse_page find_cards (Some html) = Inr []) \<and>
   (parse_page find_cards (Some html) = Inl (ParseError NoProductCards)
      \<longleftrightarrow> html \<noteq> [] \<and> find_cards html = [])"
  by (simp add: parse_page_def parse_cards_untitled Let_def)

theorem parse_page_untitled_cards_witness:
  "''<html>'' \<noteq> [] \<and> (\<lambda>h. [untitled_card, untitled_card]) ''<html>'' \<noteq> [] \<and>
   title_elem untitled_card = None \<and>
   parse_page (\<lambda>h. [untitled_card, untitled_card]) (Some ''<html>'') = Inr [] \<and>
   parse_page (\<lambda>h. []) (Some ''<html>'') = Inl (ParseError NoProductCards)"
  using parse_page_untitled_cards [of "''<html>''" "\<lambda>h. [untitled_card, untitled_card]"]
    parse_page_untitled_cards [of "''<html>''" "\<lambda>h. []"]
  by (simp add: untitled_card_def)

lemma fetch_page_clock_reads: "clock_reads (snd (fetch_page w n)) = clock_reads w"
  by (simp add: fetch_page_def Let_def split: option.splits)

lemma scrape_pages_inv:
  "scrape_pages find_cards stamp end_page w pages acc = (products, w') \<Longrightarrow>
   \<forall>p \<in> set acc. timestamp p = Some stamp \<Longrightarrow>
   clock_reads w' = clock_reads w \<and> (\<forall>p \<in> set products. timestamp p = Some stamp)"
proof (induction pages arbitrary: w acc)
  case Nil
  then show ?case by simp
next
  case (Cons page_num pages)
  obtain r w1 where f: "fetch_page w page_num = (r, w1)"
    by (cases "fetch_page w page_num")
  have cr: "clock_reads w1 = clock_reads w"
    using fetch_page_clock_reads [of w page_num] f by simp
  show ?case
  proof (cases r)
    case (Inl e)
    with Cons.prems f have "scrape_pages find_cards stamp end_page w1 pages acc = (products, w')"
      by simp
    from Cons.IH [OF this Cons.prems(2)] cr show ?thesis by simp
  next
    case (Inr html_content)
    show ?thesis
    proof (cases "parse_page find_cards (Some html_content)")
      case (Inl e)
      with Cons.prems f Inr
      have "scrape_pages find_cards stamp end_page w1 pages acc = (products, w')"
        by simp
      from Cons.IH [OF this Cons.prems(2)] cr show ?thesis by simp
    next
      case (Inr ps)
      let ?w2 = "if page_num < end_page then w1\<lparr>now := now w1 + 1\<rparr> else w1"
      let ?acc = "acc @ map (\<lambda>product. product\<lparr>timestamp := Some stamp\<rparr>) ps"
      from Cons.prems f \<open>r = Inr html_content\<close> Inr
      have run: "scrape_pages find_cards stamp end_page ?w2 pages ?acc = (products, w')"
        by (simp add: Let_def)
      have acc: "\<forall>p \<in> set ?acc. timestamp p = Some stamp"
        using Cons.prems(2) by auto
      from Cons.IH [OF run acc] cr show ?thesis by simp
    qed
  qed
qed

text \<open>
  C7. Every run of \<^verbatim>\<open>scrape_all_pages\<close> on a valid page range returns; it has read the
  clock exactly once, and every record it returns carries the formatted reading of the
  clock at the start of the run, whichever page the record came from and whatever time
  had passed by then.
\<close>

theorem scrape_all_pages_one_timestamp:
  assumes "1 \<le> start_page" and "start_page \<le> end_page" and "end_page \<le> 50"
  shows "\<exists>products w'.
           scrape_all_pages strftime find_cards w start_page end_page = (Inr products, w') \<and>
           clock_reads w' = clock_reads w + 1 \<and>
           (\<forall>p \<in> set products. timestamp p = Some (strftime (now w)))"
proof -
  let ?w1 = "w\<lparr>clock_reads := clock_reads w + 1\<rparr>"
  obtain products w' where
    run: "scrape_pages find_cards (strftime (now w)) end_page ?w1 [start_page..end_page] []
            = (products, w')"
    by (cases "scrape_pages find_cards (strftime (now w)) end_page ?w1 [start_page..end_page] []")
  from scrape_pages_inv [OF run]
  have "clock_reads w' = clock_reads w + 1"
    and "\<forall>p \<in> set products. timestamp p = Some (strftime (now w))"
    by simp_all
  moreover have "scrape_all_pages strftime find_cards w start_page end_page = (Inr products, w')"
    using assms run by (simp add: scrape_all_pages_def Let_def)
  ultimately show ?thesis by blast
qed

lemma upto_1_2: "[1..2] = [1, 2::int]"
  by (simp add: upto.simps)

lemma two_page_run:
  "fst (scrape_all_pages str_nat titled_card two_page_site 1 2) =
     Inr [\<lparr>Title = Some ''one'', Price = Some PNone, Rating = None, Colors = None, Size = None,
           Gender = None, timestamp = Some ''100''\<rparr>,
          \<lparr>Title = Some ''two'', Price = Some PNone, Rating = None, Colors = None, Size = None,
           Gender = None, timestamp = Some ''100''\<rparr>]"
  by (simp add: scrape_all_pages_def upto_1_2 fetch_page_def two_page_site_def BASE_URL_def
        str_int_def parse_page_def titled_card_def parse_product_def Let_def)

lemma two_page_world:
  "requests (snd (scrape_all_pages str_nat titled_card two_page_site 1 2)) =
     [''https://fashion-studio.dicoding.dev/'', ''https://fashion-studio.dicoding.dev/page2''] \<and>
   now (snd (scrape_all_pages str_nat titled_card two_page_site 1 2)) = 103"
  by (simp add: scrape_all_pages_def upto_1_2 fetch_page_def two_page_site_def BASE_URL_def
        str_int_def parse_page_def titled_card_def parse_product_def Let_def)

theorem scrape_all_pages_one_timestamp_witness:
  "(1::int) \<le> 1 \<and> (1::int) \<le> 2 \<and> (2::int) \<le> 50 \<and>
   (\<exists>products w'.
      scrape_all_pages str_nat titled_card two_page_site 1 2 = (Inr products, w') \<and>
      map Title products = [Some ''one'', Some ''two''] \<and> now w' = 103 \<and>
      clock_reads w' = clock_reads two_page_site + 1 \<and>
      map timestamp products = [Some ''100'', Some ''100''])"
proof -
  obtain products w' where
    run: "scrape_all_pages str_nat titled_card two_page_site 1 2 = (Inr products, w')"
    and one: "clock_reads w' = clock_reads two_page_site + 1"
    and same: "\<forall>p \<in> set products. timestamp p = Some (str_nat (now two_page_site))"
    using scrape_all_pages_one_timestamp [of 1 2 str_nat titled_card two_page_site] by auto
  have "map Title products = [Some ''one'', Some ''two'']"
    using two_page_run run by simp
  moreover have "now w' = 103"
    using two_page_world run by simp
  moreover have "map timestamp products = [Some ''100'', Some ''100'']"
    using two_page_run run by simp
  ultimately show ?thesis
    using run one by simp
qed

section \<open>The cleaners: what can fail and what cannot\<close>

lemma not_digit_point [simp]: "\<not> is_digit CHR ''.''" "\<not> is_digit CHR '',''" "\<not> is_digit CHR ''$''"
  by (simp_all add: is_digit_def)

lemma py_float_digits:
  "\<forall>c \<in> set a. is_digit c \<Longrightarrow>
   py_float a = (if a = [] then Inl ValueError else Inr (round64 (real (digits_val a))))"
  by (simp add: py_float_def Let_def takeWhile_eq_all_conv [THEN iffD2]
        dropWhile_eq_Nil_conv [THEN iffD2])

lemma py_float_point:
  assumes a: "\<forall>c \<in> set a. is_digit c" and d: "\<forall>c \<in> set d. is_digit c"
  shows "py_float (a @ CHR ''.'' # d) =
           (if a = [] \<and> d = [] then Inl ValueError
            else Inr (round64 (real (digits_val a) + real (digits_val d) / 10 ^ length d)))"
proof -
  have t: "takeWhile is_digit (a @ CHR ''.'' # d) = a"
    using a by (simp add: takeWhile_append2)
  have r: "dropWhile is_digit (a @ CHR ''.'' # d) = CHR ''.'' # d"
    using a by (simp add: dropWhile_append2)
  show ?thesis
    using d by (simp add: py_float_def Let_def t r list_all_iff)
qed

lemma py_float_nonneg: "py_float t = Inr x \<Longrightarrow> float_nonneg x"
  by (auto simp: py_float_def Let_def intro!: round64_nonneg split: list.splits if_splits)

lemma takeWhile_digits: "\<forall>c \<in> set (takeWhile is_digit s). is_digit c"
  by (auto dest: set_takeWhileD)

lemma number_group_float:
  assumes "number_group s = Some (g, r)"
  shows "\<exists>x. py_float g = Inr x"
proof (cases "dropWhile is_digit s")
  case Nil
  with assms show ?thesis
    by (auto simp: number_group_def Let_def py_float_digits takeWhile_digits split: if_splits)
next
  case (Cons c r')
  with assms show ?thesis
    by (auto simp: number_group_def Let_def py_float_digits py_float_point takeWhile_digits
        split: if_splits)
qed

lemma search_rating_group:
  "search_rating s = Some g \<Longrightarrow> \<exists>s' r. number_group s' = Some (g, r)"
  by (induction s) (force simp: match_rating_at_def split: option.splits if_splits)+

lemma search_number_group:
  "search_number s = Some g \<Longrightarrow> \<exists>s' r. number_group s' = Some (g, r)"
  by (induction s) (force split: option.splits)+

lemma clean_rating_total: "\<exists>r. clean_rating v = Inr r"
proof (cases v)
  case (PStr s)
  show ?thesis
  proof (cases "search_rating (strip s)")
    case None
    show ?thesis
    proof (cases "search_number (strip s)")
      case None
      with \<open>search_rating (strip s) = None\<close> PStr show ?thesis
        by (simp add: clean_rating_def Let_def)
    next
      case (Some g)
      then obtain x where "py_float g = Inr x"
        using search_number_group number_group_float by blast
      with Some \<open>search_rating (strip s) = None\<close> PStr show ?thesis
        by (simp add: clean_rating_def Let_def)
    qed
  next
    case (Some g)
    then obtain x where "py_float g = Inr x"
      using search_rating_group number_group_float by blast
    with Some PStr show ?thesis
      by (simp add: clean_rating_def Let_def)
  qed
qed (simp_all add: clean_rating_def)

lemma clean_rating_nonneg_value: "clean_rating v = Inr (Some x) \<Longrightarrow> float_nonneg x"
  by (auto simp: clean_rating_def Let_def dest: py_float_nonneg
      split: pyval.splits if_splits option.splits sum.splits)

lemma search_digits_group: "search_digits s = Some g \<Longrightarrow> g \<noteq> [] \<and> (\<forall>c \<in> set g. is_digit c)"
  by (induction s) (auto simp: digits_group_def Let_def dest: set_takeWhileD split: option.splits if_splits)

lemma clean_colors_raises:
  "clean_colors v = Inl ValueError \<longleftrightarrow>
     (\<exists>s g. v = PStr s \<and> s \<noteq> [] \<and> search_digits (strip s) = Some g \<and>
            int_max_str_digits < length g)"
proof (cases v)
  case (PStr s)
  show ?thesis
  proof (cases "search_digits (strip s)")
    case None
    with PStr show ?thesis by (simp add: clean_colors_def Let_def)
  next
    case (Some g)
    then have "g \<noteq> []" "list_all is_digit g"
      using search_digits_group [of "strip s" g] by (simp_all add: list_all_iff)
    with Some PStr show ?thesis
      by (simp add: clean_colors_def Let_def py_int_def not_le)
  qed
qed (simp_all add: clean_colors_def)

lemma clean_size_total: "\<exists>r. clean_size v = Inr r"
  by (cases v) (simp_all add: clean_size_def Let_def)

lemma clean_gender_total: "\<exists>r. clean_gender v = Inr r"
  by (cases v) (simp_all add: clean_gender_def Let_def)

section \<open>The price token\<close>

lemma dollar_not_token [simp]: "\<not> is_digit_or_comma CHR ''$''" "\<not> is_digit_or_comma CHR ''.''"
  by (simp_all add: is_digit_or_comma_def)

lemma price_group_Nil [simp]: "price_group [] = None"
  by (simp add: price_group_def)

lemma price_group_Cons:
  "price_group (c # cs) =
     (if is_digit_or_comma c then spec_price_token (c # cs) else None)"
proof (cases "dropWhile is_digit_or_comma cs")
  case Nil
  then show ?thesis
    by (simp add: price_group_def spec_price_token_def Let_def
          dropWhile_eq_Nil_conv [THEN iffD2])
next
  case (Cons d r')
  then show ?thesis
    by (simp add: price_group_def spec_price_token_def Let_def)
qed

lemma spec_price_token_skip:
  "\<not> is_digit_or_comma c \<Longrightarrow> spec_price_token (c # cs) = spec_price_token cs"
  by (simp add: spec_price_token_def)

lemma search_price_first_token: "search_price s = spec_price_token s"
proof (induction s)
  case Nil
  show ?case by (simp add: match_price_at_def spec_price_token_def)
next
  case (Cons c cs)
  show ?case
  proof (cases "is_digit_or_comma c")
    case True
    then have "c \<noteq> CHR ''$''" by auto
    with True show ?thesis
      by (simp add: match_price_at_def price_group_Cons spec_price_token_def Let_def)
  next
    case False
    have "match_price_at (c # cs) = (if c = CHR ''$'' then price_group cs else None)"
      using False by (simp add: match_price_at_def price_group_Cons split: option.splits)
    moreover have "price_group cs = None \<or> price_group cs = spec_price_token cs"
      by (cases cs) (simp_all add: price_group_Cons)
    ultimately show ?thesis
      using False Cons.IH by (auto simp: spec_price_token_skip split: option.splits)
  qed
qed

lemma comma_cases: "is_digit_or_comma c \<Longrightarrow> c \<noteq> CHR '','' \<Longrightarrow> is_digit c"
  unfolding is_digit_or_comma_def by blast

lemma digit_not_comma: "is_digit c \<Longrightarrow> c \<noteq> CHR '',''"
  using not_digit_point(2) by blast

lemma filter_commas_digits:
  "\<forall>c \<in> set a. is_digit_or_comma c \<Longrightarrow> \<forall>c \<in> set (filter (\<lambda>c. c \<noteq> CHR '','') a). is_digit c"
  using comma_cases by (induction a) simp_all

lemma filter_commas_Nil:
  "\<forall>c \<in> set a. is_digit_or_comma c \<Longrightarrow>
   filter (\<lambda>c. c \<noteq> CHR '','') a = [] \<longleftrightarrow> \<not> list_ex is_digit a"
proof (induction a)
  case Nil
  show ?case by simp
next
  case (Cons c a)
  then show ?case
    using comma_cases [of c] digit_not_comma [of c] by (cases "c = CHR '',''") simp_all
qed

lemma filter_commas_id: "\<forall>c \<in> set d. is_digit c \<Longrightarrow> filter (\<lambda>c. c \<noteq> CHR '','') d = d"
  using digit_not_comma by (induction d) simp_all

lemma token_float_plain:
  assumes a: "\<forall>c \<in> set a. is_digit_or_comma c"
  shows "py_float (filter (\<lambda>c. c \<noteq> CHR '','') a) = Inl ValueError \<longleftrightarrow> \<not> list_ex is_digit a"
  using filter_commas_Nil [OF a]
  by (simp add: py_float_digits [OF filter_commas_digits [OF a]])

lemma token_float_point:
  assumes a: "\<forall>c \<in> set a. is_digit_or_comma c" and d: "\<forall>c \<in> set d. is_digit c"
  shows "py_float (filter (\<lambda>c. c \<noteq> CHR '','') (a @ CHR ''.'' # d)) = Inl ValueError
           \<longleftrightarrow> \<not> list_ex is_digit (a @ CHR ''.'' # d)"
proof -
  have f: "filter (\<lambda>c. c \<noteq> CHR '','') (a @ CHR ''.'' # d) =
             filter (\<lambda>c. c \<noteq> CHR '','') a @ CHR ''.'' # d"
    by (simp add: filter_commas_id [OF d])
  have e: "list_ex is_digit (a @ CHR ''.'' # d) \<longleftrightarrow> list_ex is_digit a \<or> d \<noteq> []"
    using d by (cases d) (simp_all add: list_ex_iff)
  show ?thesis
    unfolding f e
    using filter_commas_Nil [OF a]
    by (simp add: py_float_point [OF filter_commas_digits [OF a] d])
qed

lemma spec_price_token_float:
  assumes "spec_price_token s = Some g"
  shows "py_float (filter (\<lambda>c. c \<noteq> CHR '','') g) = Inl ValueError \<longleftrightarrow> \<not> list_ex is_digit g"
proof -
  define r where "r = dropWhile (\<lambda>c. \<not> is_digit_or_comma c) s"
  define a where "a = takeWhile is_digit_or_comma r"
  have a: "\<forall>c \<in> set a. is_digit_or_comma c"
    unfolding a_def by (auto dest: set_takeWhileD)
  have g: "g = a @ (case dropWhile is_digit_or_comma r of
                      [] \<Rightarrow> []
                    | c # r' \<Rightarrow> if c = CHR ''.'' then c # takeWhile is_digit r' else [])"
    using assms unfolding spec_price_token_def Let_def r_def [symmetric] a_def [symmetric]
    by (simp split: if_splits)
  show ?thesis
  proof (cases "dropWhile is_digit_or_comma r")
    case Nil
    have "g = a" unfolding g Nil by simp
    then show ?thesis using token_float_plain [OF a] by simp
  next
    case (Cons c r')
    show ?thesis
    proof (cases "c = CHR ''.''")
      case True
      have "g = a @ CHR ''.'' # takeWhile is_digit r'"
        unfolding g Cons using True by simp
      then show ?thesis
        using token_float_point [OF a takeWhile_digits [of r']] by simp
    next
      case False
      have "g = a" unfolding g Cons using False by simp
      then show ?thesis using token_float_plain [OF a] by simp
    qed
  qed
qed

lemma clean_price_raises:
  "clean_price v = Inl ValueError \<longleftrightarrow>
     (\<exists>s g. v = PStr s \<and> s \<noteq> [] \<and> \<not> str_in ''Unavailable'' (strip s) \<and>
            \<not> str_in ''unavailable'' (strip s) \<and> search_price (strip s) = Some g \<and>
            \<not> list_ex is_digit g)"
proof (cases v)
  case (PStr s)
  show ?thesis
  proof (cases "search_price (strip s)")
    case None
    with PStr show ?thesis by (simp add: clean_price_def Let_def)
  next
    case (Some g)
    then have "spec_price_token (strip s) = Some g"
      by (simp add: search_price_first_token)
    note f = spec_price_token_float [OF this]
    show ?thesis
    proof (cases "py_float (filter (\<lambda>c. c \<noteq> CHR '','') g)")
      case (Inl e)
      with f Some PStr show ?thesis by (simp add: clean_price_def Let_def)
    next
      case (Inr x)
      with f Some PStr show ?thesis by (simp add: clean_price_def Let_def)
    qed
  qed
qed (simp_all add: clean_price_def)

section \<open>The sentinel text of an unavailable price\<close>

lemma starts_with_iff: "starts_with w s \<longleftrightarrow> (\<exists>q. s = w @ q)"
  by (induction w s rule: starts_with.induct) auto

lemma str_in_iff: "str_in w s \<longleftrightarrow> (\<exists>p q. s = p @ w @ q)"
proof (induction s)
  case Nil
  show ?case by auto
next
  case (Cons c cs)
  show ?case
  proof
    assume "str_in w (c # cs)"
    then consider "starts_with w (c # cs)" | "str_in w cs" by auto
    then show "\<exists>p q. c # cs = p @ w @ q"
    proof cases
      case 1
      then obtain q where "c # cs = w @ q" unfolding starts_with_iff by blast
      then have "c # cs = [] @ w @ q" by simp
      then show ?thesis by blast
    next
      case 2
      then obtain p q where "cs = p @ w @ q" using Cons.IH by blast
      then have "c # cs = (c # p) @ w @ q" by simp
      then show ?thesis by blast
    qed
  next
    assume "\<exists>p q. c # cs = p @ w @ q"
    then obtain p q where pq: "c # cs = p @ w @ q" by blast
    show "str_in w (c # cs)"
    proof (cases p)
      case Nil
      with pq have "starts_with w (c # cs)" unfolding starts_with_iff by simp
      then show ?thesis by simp
    next
      case (Cons c' p')
      with pq have "cs = p' @ w @ q" by simp
      then have "str_in w cs" using Cons.IH by blast
      then show ?thesis by simp
    qed
  qed
qed

lemma dropWhile_keeps_word:
  assumes "w \<noteq> []" and "\<not> P (hd w)"
  shows "dropWhile P (p @ w @ q) = dropWhile P p @ w @ q"
proof -
  obtain h t where w: "w = h # t" using assms(1) by (cases w) auto
  with assms(2) have "\<not> P h" by simp
  then show ?thesis
    by (simp add: w dropWhile_append)
qed

lemma str_in_strip:
  assumes w: "w \<noteq> []" and h: "\<not> is_space (hd w)" and l: "\<not> is_space (last w)"
    and s: "str_in w s"
  shows "str_in w (strip s)"
proof -
  obtain p q where pq: "s = p @ w @ q" using s unfolding str_in_iff by blast
  have rw: "rev w \<noteq> []" "\<not> is_space (hd (rev w))"
    using w l by (simp_all add: hd_rev)
  have "dropWhile is_space s = dropWhile is_space p @ w @ q"
    unfolding pq using w h by (rule dropWhile_keeps_word [where P = is_space])
  then have "rev (dropWhile is_space s) = rev q @ rev w @ rev (dropWhile is_space p)"
    by simp
  then have "dropWhile is_space (rev (dropWhile is_space s)) =
               dropWhile is_space (rev q) @ rev w @ rev (dropWhile is_space p)"
    using dropWhile_keeps_word [where P = is_space and w = "rev w", OF rw] by simp
  then have "strip s = dropWhile is_space p @ w @ rev (dropWhile is_space (rev q))"
    by (simp add: strip_def)
  then show ?thesis
    unfolding str_in_iff by blast
qed

lemma word_ends:
  "\<not> is_space (hd ''Unavailable'')" "\<not> is_space (last ''Unavailable'')"
  "\<not> is_space (hd ''unavailable'')" "\<not> is_space (last ''unavailable'')"
  by (simp_all add: is_space_def)

text \<open>
  C3, as amended. For every string that contains "Unavailable" or "unavailable", spelt in
  one of these two ways, \<^verbatim>\<open>clean_price\<close> returns missing. The test is made on the
  stripped text, which still contains the word.
\<close>

theorem clean_price_unavailable:
  assumes "str_in ''Unavailable'' s \<or> str_in ''unavailable'' s"
  shows "clean_price (PStr s) = Inr None"
proof -
  have "str_in ''Unavailable'' (strip s) \<or> str_in ''unavailable'' (strip s)"
    using assms str_in_strip [OF _ word_ends(1,2), of s] str_in_strip [OF _ word_ends(3,4), of s]
    by auto
  then show ?thesis
    by (auto simp: clean_price_def Let_def)
qed

theorem clean_price_unavailable_witness:
  "str_in ''Unavailable'' ''  Price Unavailable '' \<and>
   clean_price (PStr ''  Price Unavailable '') = Inr None"
proof -
  have "str_in ''Unavailable'' ''  Price Unavailable ''" by simp
  then show ?thesis
    using clean_price_unavailable [of "''  Price Unavailable ''"] by blast
qed

text \<open>
  Another letter case is not recognised: the upper-case word is passed over and the
  number after it is converted.
\<close>

lemma round_5: "round64 5 = Finite 5"
  by (simp add: float_eval)

lemma times_5: "float_times (Finite 5) 16000 = Finite 80000"
  by (simp add: float_times_def) (simp add: float_eval)

theorem clean_price_uppercase_counterexample:
  "str_in ''UNAVAILABLE'' ''PRICE UNAVAILABLE $5'' \<and>
   clean_price (PStr ''PRICE UNAVAILABLE $5'') = Inr (Some (Finite 80000))"
  by (simp add: eval_defs round_5 times_5)

section \<open>The range of a rating\<close>

lemma value_of_Some: "value_of m = Some x \<Longrightarrow> m = Inr (Some x)"
  by (cases m) simp_all

lemma final_rows_rating:
  assumes "r \<in> set (final_rows data)"
  shows "\<exists>d \<in> set data. row_rating r = value_of (clean_rating (cell_value (Rating d)))"
proof -
  obtain r' where r': "r' \<in> set (kept_rows data)" and r: "r = cast_row (batch_dtype data) r'"
    using assms by (auto simp: final_rows_def)
  obtain d where d: "d \<in> set data" and c: "r' = cleaned_row (batch_dtype data) d"
    using kept_rows_cleaned [OF r'] by blast
  have "row_rating r = value_of (clean_rating (cell_value (Rating d)))"
    by (simp add: r c cast_row_cells cleaned_row_def)
  with d show ?thesis by blast
qed

text \<open>
  C4, as amended. Whenever \<^verbatim>\<open>clean_rating\<close> returns a value, and hence for the rating of
  every row of a dataset that \<^verbatim>\<open>transform_data\<close> returns, the value is not negative.
\<close>

theorem clean_rating_nonnegative:
  "(clean_rating v = Inr (Some x) \<longrightarrow> float_nonneg x) \<and>
   (transform_data data = Inr ds \<longrightarrow>
      (\<forall>r \<in> set (rows ds). \<exists>y. row_rating r = Some y \<and> float_nonneg y))"
proof (intro conjI impI ballI)
  assume "clean_rating v = Inr (Some x)"
  then show "float_nonneg x" by (rule clean_rating_nonneg_value)
next
  fix r
  assume ok: "transform_data data = Inr ds" and r: "r \<in> set (rows ds)"
  have rows: "rows ds = final_rows data"
    using transform_data_Inr [OF ok] by simp
  have fr: "r \<in> set (final_rows data)"
    using r rows by simp
  obtain d :: raw_product where d: "row_rating r = value_of (clean_rating (cell_value (Rating d)))"
    using final_rows_rating [OF fr] by blast
  have "no_null r"
    using final_rows_no_null fr by blast
  then obtain y where y: "row_rating r = Some y"
    by (auto simp: no_null_def)
  then have "clean_rating (cell_value (Rating d)) = Inr (Some y)"
    using d by (simp add: value_of_Some)
  then have "float_nonneg y" by (rule clean_rating_nonneg_value)
  with y show "\<exists>y. row_rating r = Some y \<and> float_nonneg y" by simp
qed

lemma round_9_5: "round64 (95 / 10) = Finite (95 / 10)"
  by (simp add: float_eval)

lemma rating_9_5: "clean_rating (PStr ''Rating: 9.5 / 5'') = Inr (Some (Finite 9.5))"
  by (simp add: eval_defs round_9_5 [simplified])

text \<open>No test bounds the value from above: a rating text of 9.5 out of 5 gives 9.5.\<close>

theorem clean_rating_range_counterexample:
  "clean_rating (PStr ''Rating: 9.5 / 5'') = Inr (Some (Finite 9.5)) \<and> \<not> (9.5 \<le> (5::real))"
  using rating_9_5 by simp

theorem clean_rating_nonnegative_witness:
  "clean_rating (PStr ''Rating: 9.5 / 5'') = Inr (Some (Finite 9.5)) \<and>
   float_nonneg (Finite 9.5) \<and>
   transform_data sample_batch = Inr \<lparr>columns = columns_order, rows = [sample_clean_row]\<rparr> \<and>
   row_rating sample_clean_row = Some (Finite (8782019273372467 / 2 ^ 51)) \<and>
   float_nonneg (Finite (8782019273372467 / 2 ^ 51))"
proof -
  from clean_rating_nonnegative [of "PStr ''Rating: 9.5 / 5''" "Finite 9.5" sample_batch
      "\<lparr>columns = columns_order, rows = [sample_clean_row]\<rparr>"]
    rating_9_5 sample_batch_transform
  show ?thesis
    by (simp add: sample_clean_row_def)
qed

section \<open>Totality of the cleaners\<close>

text \<open>
  C2, as amended. \<^verbatim>\<open>clean_rating\<close>, \<^verbatim>\<open>clean_size\<close> and \<^verbatim>\<open>clean_gender\<close> return a value or
  missing for every input. \<^verbatim>\<open>clean_price\<close> raises \<^verbatim>\<open>ValueError\<close> exactly for a non-empty
  string without the sentinel word whose first numeric token has no digit (commas only,
  with or without a point after them). \<^verbatim>\<open>clean_colors\<close> raises \<^verbatim>\<open>ValueError\<close> exactly for a
  non-empty string whose first run of digits is longer than the 4300 digits that
  \<^verbatim>\<open>int\<close> converts. Each of the two returns a value or missing for every other input.
\<close>

theorem cleaners_total_except_price_and_colors:
  "(\<exists>r. clean_rating v = Inr r) \<and> (\<exists>r. clean_size v = Inr r) \<and> (\<exists>r. clean_gender v = Inr r) \<and>
   (clean_price v = Inl ValueError \<longleftrightarrow>
      (\<exists>s g. v = PStr s \<and> s \<noteq> [] \<and> \<not> str_in ''Unavailable'' (strip s) \<and>
             \<not> str_in ''unavailable'' (strip s) \<and> search_price (strip s) = Some g \<and>
             \<not> list_ex is_digit g)) \<and>
   (clean_colors v = Inl ValueError \<longleftrightarrow>
      (\<exists>s g. v = PStr s \<and> s \<noteq> [] \<and> search_digits (strip s) = Some g \<and>
             int_max_str_digits < length g))"
  using clean_rating_total clean_size_total clean_gender_total clean_price_raises
    clean_colors_raises by blast

text \<open>The text of a single comma: the token is the comma, and \<^verbatim>\<open>float('')\<close> raises.\<close>

theorem clean_price_raises_counterexample:
  "clean_price (PStr '','') = Inl ValueError"
  by (simp add: eval_defs)

lemma digits_not_space: "is_digit c \<Longrightarrow> \<not> is_space c"
  by (auto simp: is_digit_def is_space_def)

lemma strip_digits: "\<forall>c \<in> set s. is_digit c \<Longrightarrow> strip s = s"
proof -
  assume d: "\<forall>c \<in> set s. is_digit c"
  then have n: "\<forall>c \<in> set s. \<not> is_space c" using digits_not_space by blast
  have "dropWhile is_space s = s"
    using n by (cases s) simp_all
  moreover have "dropWhile is_space (rev s) = rev s"
    using n by (cases "rev s") (simp, metis dropWhile.simps(2) list.set_intros(1) set_rev)
  ultimately show ?thesis by (simp add: strip_def)
qed

lemma search_digits_run:
  "s \<noteq> [] \<Longrightarrow> \<forall>c \<in> set s. is_digit c \<Longrightarrow> search_digits s = Some s"
  by (cases s) (simp_all add: digits_group_def Let_def takeWhile_eq_all_conv [THEN iffD2])

lemma long_run:
  "search_digits (strip (replicate 4301 CHR ''1'')) = Some (replicate 4301 CHR ''1'')"
proof -
  have d: "\<forall>c \<in> set (replicate 4301 CHR ''1''). is_digit c"
    by (simp add: is_digit_def)
  have n: "replicate 4301 CHR ''1'' \<noteq> []" by simp
  show ?thesis
    unfolding strip_digits [OF d] by (rule search_digits_run [OF n d])
qed

theorem cleaners_total_except_price_and_colors_witness:
  "search_price (strip '',.'') = Some '',.'' \<and> \<not> list_ex is_digit '',.'' \<and>
   clean_price (PStr '',.'') = Inl ValueError \<and>
   (\<exists>r. clean_rating (PStr '',.'') = Inr r) \<and>
   search_digits (strip (replicate 4301 CHR ''1'')) = Some (replicate 4301 CHR ''1'') \<and>
   int_max_str_digits < length (replicate 4301 CHR ''1'') \<and>
   clean_colors (PStr (replicate 4301 CHR ''1'')) = Inl ValueError"
proof -
  have p: "search_price (strip '',.'') = Some '',.''" "\<not> list_ex is_digit '',.''"
    "\<not> str_in ''Unavailable'' (strip '',.'')" "\<not> str_in ''unavailable'' (strip '',.'')"
    by (simp_all add: eval_defs)
  have l: "int_max_str_digits < length (replicate 4301 CHR ''1'')"
    by (simp add: int_max_str_digits_def)
  have n: "replicate 4301 CHR ''1'' \<noteq> []"
    by simp
  have "clean_price (PStr '',.'') = Inl ValueError" "\<exists>r. clean_rating (PStr '',.'') = Inr r"
    using p cleaners_total_except_price_and_colors [of "PStr '',.''"] by blast+
  moreover have "clean_colors (PStr (replicate 4301 CHR ''1'')) = Inl ValueError"
    using long_run l n
      cleaners_total_except_price_and_colors [of "PStr (replicate 4301 CHR ''1'')"]
    by blast
  ultimately show ?thesis
    using p long_run l by blast
qed

section \<open>The price against its reference definition\<close>

lemma round_1234_56: "round64 (123456 / 100) = Finite (2714826150374277 / 2 ^ 41)"
  by (simp add: float_eval)

lemma times_1234_56: "float_times (Finite (2714826150374277 / 2 ^ 41)) 16000 = Finite 19752960"
  by (simp add: float_times_def) (simp add: float_eval)

lemma round_16_1: "round64 (161 / 10) = Finite (2265873562520781 / 2 ^ 47)"
  by (simp add: float_eval)

lemma times_16_1:
  "float_times (Finite (2265873562520781 / 2 ^ 47)) 16000 = Finite (8851068603596801 / 2 ^ 35)"
  by (simp add: float_times_def) (simp add: float_eval)

lemma product_102_15: "float_times (round64 (10215 / 100)) 16000 = Finite 1634400"
  by (simp only: round_102_15 times_102_15)

lemma product_1234_56: "float_times (round64 (123456 / 100)) 16000 = Finite 19752960"
  by (simp only: round_1234_56 times_1234_56)

lemma price_102_15: "clean_price (PStr ''$102.15'') = Inr (Some (Finite 1634400))"
  by (simp add: eval_defs sample_floats)

lemma price_1234_56: "clean_price (PStr ''$1,234.56'') = Inr (Some (Finite 19752960))"
  by (simp add: eval_defs round_1234_56 [simplified] times_1234_56 [simplified])

subsection \<open>Overflow to infinity\<close>

lemma pow2_powi: "pow2 e = 2 powi e"
  by (simp add: pow2_def power_int_def inverse_eq_divide power_one_over)

lemma pow2_mono: "a \<le> b \<Longrightarrow> pow2 a \<le> pow2 b"
  by (simp add: pow2_powi power_int_increasing)

lemma binade_between_top:
  "lo \<le> hi \<Longrightarrow> pow2 hi \<le> x \<Longrightarrow> binade_between x lo hi = hi"
proof (induction x lo hi rule: binade_between.induct)
  case (1 x lo hi)
  show ?case
  proof (cases "lo < hi")
    case True
    let ?mid = "(lo + hi + 1) div 2"
    have m: "?mid \<le> hi" using True by simp
    have "pow2 ?mid \<le> x" using pow2_mono [OF m] 1(4) by simp
    moreover have "binade_between x ?mid hi = hi"
      using 1(1) [OF True refl] \<open>pow2 ?mid \<le> x\<close> m 1(4) by simp
    ultimately show ?thesis
      using True by (subst binade_between.simps) (simp add: Let_def)
  next
    case False
    then show ?thesis
      using 1(3) by (subst binade_between.simps) simp
  qed
qed

lemma round_half_even_floor: "\<lfloor>y\<rfloor> \<le> round_half_even y"
  by (simp add: round_half_even_def Let_def)

lemma round_magnitude_overflow:
  assumes "pow2 1024 \<le> x"
  shows "round_magnitude x = None"
proof -
  define u where "u = pow2 971"
  define k :: int where "k = 2 ^ 53"
  have "pow2 1023 \<le> pow2 1024" by (rule pow2_mono) simp
  then have "binade_between x (- 1022) 1023 = 1023"
    using assms by (intro binade_between_top) simp_all
  then have e: "pow2 (binade_between x (- 1022) 1023 - 52) = u"
    by (simp add: u_def)
  have u: "0 < u" unfolding u_def by (rule pow2_pos)
  have "pow2 1024 = pow2 (53 + 971)" by simp
  also have "\<dots> = pow2 53 * u"
    unfolding u_def pow2_powi by (rule power_int_add) simp
  also have "pow2 53 = of_int k"
    by (simp add: pow2_def k_def)
  finally have s: "pow2 1024 = of_int k * u" .
  have "of_int k \<le> x / u"
    using assms u by (simp add: s pos_le_divide_eq)
  then have "k \<le> \<lfloor>x / u\<rfloor>"
    by (simp add: le_floor_iff)
  then have "k \<le> round_half_even (x / u)"
    using round_half_even_floor [of "x / u"] by linarith
  then have "(of_int k :: real) \<le> of_int (round_half_even (x / u))"
    by (simp only: of_int_le_iff)
  then have "of_int k * u \<le> of_int (round_half_even (x / u)) * u"
    using u by (simp add: mult_right_mono)
  then have "pow2 1024 \<le> of_int (round_half_even (x / u)) * u"
    by (simp only: s)
  then show ?thesis
    unfolding round_magnitude_def Let_def e by (simp only: if_True)
qed

lemma round64_overflow: "pow2 1024 \<le> x \<Longrightarrow> round64 x = PlusInf"
proof -
  assume a: "pow2 1024 \<le> x"
  have "0 < pow2 1024" by (rule pow2_pos)
  then have "\<not> x < 0" using a by linarith
  then show ?thesis
    by (simp add: round64_def round_magnitude_overflow [OF a])
qed

lemma foldl_zeros:
  "foldl (\<lambda>a c. 10 * a + digit_val c) a (replicate n CHR ''0'') = a * 10 ^ n"
  by (induction n arbitrary: a) (simp_all add: digit_val_def)

lemma digits_val_one_zeros: "digits_val (CHR ''1'' # replicate n CHR ''0'') = 10 ^ n"
  by (simp add: digits_val_def foldl_zeros) (simp add: digit_val_def)

lemma one_zeros_digits: "\<forall>c \<in> set (CHR ''1'' # replicate n CHR ''0''). is_digit c"
  by (auto simp: is_digit_def)

lemma spec_price_token_digits:
  assumes "s \<noteq> []" and "\<forall>c \<in> set s. is_digit c"
  shows "spec_price_token s = Some s"
proof -
  have a: "\<forall>c \<in> set s. is_digit_or_comma c"
    using assms(2) by (simp add: is_digit_or_comma_def)
  then have "dropWhile (\<lambda>c. \<not> is_digit_or_comma c) s = s"
    using assms(1) by (cases s) simp_all
  then show ?thesis
    using assms(1) a
    by (simp add: spec_price_token_def Let_def takeWhile_eq_all_conv [THEN iffD2]
          dropWhile_eq_Nil_conv [THEN iffD2])
qed

lemma not_str_in_digits:
  assumes "\<forall>c \<in> set s. is_digit c" and "c \<in> set w" and "\<not> is_digit c"
  shows "\<not> str_in w s"
proof
  assume "str_in w s"
  then obtain p q where "s = p @ w @ q"
    unfolding str_in_iff by blast
  then have "c \<in> set s"
    using assms(2) by simp
  then show False
    using assms(1,3) by blast
qed

lemma py_float_one_zeros:
  "py_float (filter (\<lambda>c. c \<noteq> CHR '','') (CHR ''1'' # replicate 400 CHR ''0'')) = Inr PlusInf"
proof -
  have "pow2 1024 \<le> real (10 ^ 400)"
    by (simp add: pow2_def)
  then have "round64 (real (digits_val (CHR ''1'' # replicate 400 CHR ''0''))) = PlusInf"
    unfolding digits_val_one_zeros by (rule round64_overflow)
  then show ?thesis
    unfolding filter_commas_id [OF one_zeros_digits] py_float_digits [OF one_zeros_digits]
    by simp
qed

text \<open>
  C5. \<^verbatim>\<open>clean_price\<close> on "$102.15" is the float 102.15 times 16000, on "$1,234.56" it is
  the float 1234.56 times 16000, on "Price Unavailable" and on an absent value it is
  missing; the two products, taken in floats as the code takes them, are the floats
  1634400 and 19752960, which are also the exact products. In general, for a non-empty
  text without the sentinel word, the result is the first numeric token of the stripped
  text, with its commas removed and read as a float, times 16000 in floats; and missing
  when the text has no numeric token.
\<close>

theorem clean_price_conforms:
  "clean_price (PStr ''$102.15'') = Inr (Some (float_times (round64 (10215 / 100)) 16000)) \<and>
   float_times (round64 (10215 / 100)) 16000 = Finite (10215 / 100 * 16000) \<and>
   clean_price (PStr ''$1,234.56'') = Inr (Some (float_times (round64 (123456 / 100)) 16000)) \<and>
   float_times (round64 (123456 / 100)) 16000 = Finite (123456 / 100 * 16000) \<and>
   clean_price (PStr ''Price Unavailable'') = Inr None \<and>
   clean_price PNone = Inr None \<and> clean_price PNaN = Inr None \<and>
   (\<forall>s g x. s \<noteq> [] \<and> \<not> str_in ''Unavailable'' (strip s) \<and> \<not> str_in ''unavailable'' (strip s) \<and>
            spec_price_token (strip s) = Some g \<and>
            py_float (filter (\<lambda>c. c \<noteq> CHR '','') g) = Inr x
       \<longrightarrow> clean_price (PStr s) = Inr (Some (float_times x 16000))) \<and>
   (\<forall>s. spec_price_token (strip s) = None \<longrightarrow> clean_price (PStr s) = Inr None)"
proof -
  have e1: "clean_price (PStr ''$102.15'') = Inr (Some (float_times (round64 (10215 / 100)) 16000))"
    by (simp only: product_102_15 price_102_15)
  have p1: "float_times (round64 (10215 / 100)) 16000 = Finite (10215 / 100 * 16000)"
    by (simp only: product_102_15) simp
  have e2: "clean_price (PStr ''$1,234.56'') =
              Inr (Some (float_times (round64 (123456 / 100)) 16000))"
    by (simp only: product_1234_56 price_1234_56)
  have p2: "float_times (round64 (123456 / 100)) 16000 = Finite (123456 / 100 * 16000)"
    by (simp only: product_1234_56) simp
  have e3: "clean_price (PStr ''Price Unavailable'') = Inr None"
    by (simp add: eval_defs)
  have e4: "clean_price PNone = Inr None" "clean_price PNaN = Inr None"
    by (simp_all add: clean_price_def)
  have g: "\<forall>s g x. s \<noteq> [] \<and> \<not> str_in ''Unavailable'' (strip s) \<and>
            \<not> str_in ''unavailable'' (strip s) \<and> spec_price_token (strip s) = Some g \<and>
            py_float (filter (\<lambda>c. c \<noteq> CHR '','') g) = Inr x
       \<longrightarrow> clean_price (PStr s) = Inr (Some (float_times x 16000))"
    by (simp add: clean_price_def Let_def search_price_first_token USD_TO_IDR_RATE_def)
  have n: "\<forall>s. spec_price_token (strip s) = None \<longrightarrow> clean_price (PStr s) = Inr None"
    by (simp add: clean_price_def Let_def search_price_first_token)
  show ?thesis
    using e1 p1 e2 p2 e3 e4 g n by blast
qed

theorem clean_price_conforms_witness:
  "spec_price_token (strip ''  Sale: $16.1 each '') = Some ''16.1'' \<and>
   py_float (filter (\<lambda>c. c \<noteq> CHR '','') ''16.1'') = Inr (Finite (2265873562520781 / 2 ^ 47)) \<and>
   float_times (Finite (2265873562520781 / 2 ^ 47)) 16000 = Finite (257600 + 1 / 2 ^ 35) \<and>
   clean_price (PStr ''  Sale: $16.1 each '') = Inr (Some (Finite (257600 + 1 / 2 ^ 35))) \<and>
   spec_price_token (strip (CHR ''1'' # replicate 400 CHR ''0'')) =
     Some (CHR ''1'' # replicate 400 CHR ''0'') \<and>
   py_float (filter (\<lambda>c. c \<noteq> CHR '','') (CHR ''1'' # replicate 400 CHR ''0'')) = Inr PlusInf \<and>
   clean_price (PStr (CHR ''1'' # replicate 400 CHR ''0'')) = Inr (Some PlusInf) \<and>
   spec_price_token (strip ''free'') = None \<and> clean_price (PStr ''free'') = Inr None"
proof -
  have t: "spec_price_token (strip ''  Sale: $16.1 each '') = Some ''16.1''"
    by (simp add: spec_price_token_def eval_defs)
  have f: "py_float (filter (\<lambda>c. c \<noteq> CHR '','') ''16.1'') =
             Inr (Finite (2265873562520781 / 2 ^ 47))"
    by (simp add: eval_defs round_16_1 [simplified])
  have m: "float_times (Finite (2265873562520781 / 2 ^ 47)) 16000 = Finite (257600 + 1 / 2 ^ 35)"
    by (simp only: times_16_1) simp
  have u: "\<not> str_in ''Unavailable'' (strip ''  Sale: $16.1 each '')"
    "\<not> str_in ''unavailable'' (strip ''  Sale: $16.1 each '')"
    by (simp_all add: eval_defs)
  have n: "spec_price_token (strip ''free'') = None"
    by (simp add: spec_price_token_def eval_defs)
  have "clean_price (PStr ''  Sale: $16.1 each '') =
          Inr (Some (float_times (Finite (2265873562520781 / 2 ^ 47)) 16000))"
    using clean_price_conforms t f u by blast
  then have c: "clean_price (PStr ''  Sale: $16.1 each '') =
                  Inr (Some (Finite (257600 + 1 / 2 ^ 35)))"
    by (simp only: m)
  let ?big = "CHR ''1'' # replicate 400 CHR ''0''"
  have bs: "strip ?big = ?big"
    using one_zeros_digits by (rule strip_digits)
  have bn: "?big \<noteq> []" by simp
  have bt: "spec_price_token (strip ?big) = Some ?big"
    unfolding bs by (rule spec_price_token_digits [OF bn one_zeros_digits])
  have bu: "\<not> str_in ''Unavailable'' (strip ?big)" "\<not> str_in ''unavailable'' (strip ?big)"
    unfolding bs
    by (rule not_str_in_digits [where c = "CHR ''a''", OF one_zeros_digits];
        simp add: is_digit_def)+
  have "clean_price (PStr ?big) = Inr (Some (float_times PlusInf 16000))"
    using clean_price_conforms bn bt bu py_float_one_zeros by blast
  then have b: "clean_price (PStr ?big) = Inr (Some PlusInf)"
    by (simp add: float_times_def)
  have d: "clean_price (PStr ''free'') = Inr None"
    using clean_price_conforms n by blast
  show ?thesis
    using t f m c bt py_float_one_zeros b n d by blast
qed

section \<open>Running the transform stage on its own output\<close>

lemma typed_values_missing:
  "clean_price (PFloat x) = Inr None" "clean_rating (PFloat x) = Inr None"
  "clean_colors (PInt n) = Inr None"
  by (simp_all add: clean_price_def clean_rating_def clean_colors_def)

lemma to_records_keys:
  assumes "d \<in> set (to_records ds)"
  shows "Price d \<noteq> None \<and> Rating d \<noteq> None \<and> Colors d \<noteq> None \<and> Size d \<noteq> None \<and> Gender d \<noteq> None"
  using assms by (auto simp: to_records_def record_of_row_def)

lemma to_records_cleaners:
  assumes "d \<in> set (to_records ds)"
  shows "\<not> isl (clean_price (cell_value (Price d))) \<and> \<not> isl (clean_rating (cell_value (Rating d))) \<and>
         \<not> isl (clean_colors (cell_value (Colors d))) \<and> \<not> isl (clean_size (cell_value (Size d))) \<and>
         \<not> isl (clean_gender (cell_value (Gender d))) \<and>
         value_of (clean_colors (cell_value (Colors d))) = None \<and>
         row_price (cleaned_row dtype d) = None"
proof -
  obtain r where d: "d = record_of_row r"
    using assms by (auto simp: to_records_def)
  have s: "\<not> isl (clean_size v)" "\<not> isl (clean_gender v)" for v
    using clean_size_total [of v] clean_gender_total [of v] by auto
  show ?thesis
    by (simp add: d record_of_row_def s cleaned_row_def typed_values_missing cleaners_nan
          split: option.splits)
qed

lemma kept_rows_to_records: "kept_rows (to_records ds) = []"
proof -
  have "\<forall>r \<in> set (map (cleaned_row (batch_dtype (to_records ds))) (to_records ds)). \<not> no_null r"
    using to_records_cleaners by (auto simp: no_null_def)
  then have "dropna (filter (\<lambda>r. row_title r \<noteq> Some ''Unknown Product'')
                (map (cleaned_row (batch_dtype (to_records ds))) (to_records ds))) = []"
    unfolding dropna_def by (simp add: filter_empty_conv)
  then show ?thesis
    by (simp add: kept_rows_def)
qed

lemma final_rows_to_records: "final_rows (to_records ds) = []"
  by (simp add: final_rows_def kept_rows_to_records)

lemma readable_to_records: "colors_readable (colors_cells (to_records ds))"
proof -
  have "list_all (\<lambda>c. c = None) (colors_cells (to_records ds))"
    using to_records_cleaners by (auto simp: colors_cells_def list_all_iff)
  then show ?thesis
    by (simp add: colors_readable_def scan_colors_nulls)
qed

lemma castable_to_records:
  "colors_castable (batch_dtype (to_records ds)) (kept_rows (to_records ds))"
  by (simp add: kept_rows_to_records colors_castable_def)

text \<open>
  C1, as amended. Let \<^verbatim>\<open>transform_data\<close> return a dataset. Running it again on the
  records of that dataset does not fail when the dataset has a row, and returns the
  dataset without any row: \<^verbatim>\<open>clean_price\<close>, \<^verbatim>\<open>clean_rating\<close> and \<^verbatim>\<open>clean_colors\<close> return
  missing for a value that is already a number, so every row is dropped. When the
  dataset has no row, the second run is rejected as an empty input.
\<close>

theorem transform_twice_drops_rows:
  assumes "transform_data data = Inr ds"
  shows "(rows ds \<noteq> [] \<longrightarrow> transform_data (to_records ds) = Inr (ds\<lparr>rows := []\<rparr>)) \<and>
         (rows ds = [] \<longrightarrow> transform_data (to_records ds) = Inl (ValidationError EmptyInput)) \<and>
         clean_price (PFloat x) = Inr None \<and> clean_rating (PFloat x) = Inr None \<and>
         clean_colors (PInt n) = Inr None"
proof (intro conjI impI)
  assume ne: "rows ds \<noteq> []"
  have ds: "ds = \<lparr>columns = columns_order, rows = final_rows data\<rparr>"
    using assms by (rule transform_data_Inr)
  obtain r rs where rs: "rows ds = r # rs"
    using ne by (cases "rows ds") auto
  have "r \<in> set (final_rows data)"
    using rs ds by (metis dataset.select_convs(2) list.set_intros(1))
  then have nn: "no_null r" by (rule final_rows_no_null)
  let ?d = "hd (to_records ds)"
  have hd: "?d \<in> set (to_records ds)" "to_records ds \<noteq> []"
    using rs by (simp_all add: to_records_def)
  have tt: "Title ?d \<noteq> None" "timestamp ?d \<noteq> None"
    using rs nn by (simp_all add: to_records_def record_of_row_def no_null_def)
  have keys: "key_present Title (to_records ds)" "key_present timestamp (to_records ds)"
    "key_present Price (to_records ds)" "key_present Rating (to_records ds)"
    "key_present Colors (to_records ds)" "key_present Size (to_records ds)"
    "key_present Gender (to_records ds)"
    unfolding key_present_def list_ex_iff using hd(1) tt to_records_keys [OF hd(1)] by blast+
  have ok: "list_all (\<lambda>d. \<not> isl (clean_price (cell_value (Price d)))) (to_records ds)"
    "list_all (\<lambda>d. \<not> isl (clean_rating (cell_value (Rating d)))) (to_records ds)"
    "list_all (\<lambda>d. \<not> isl (clean_colors (cell_value (Colors d)))) (to_records ds)"
    "list_all (\<lambda>d. \<not> isl (clean_size (cell_value (Size d)))) (to_records ds)"
    "list_all (\<lambda>d. \<not> isl (clean_gender (cell_value (Gender d)))) (to_records ds)"
    unfolding list_all_iff using to_records_cleaners by blast+
  have "transform_data (to_records ds) = Inr \<lparr>columns = columns_order, rows = []\<rparr>"
    using hd(2) keys ok
    by (simp add: transform_data_eq final_rows_to_records readable_to_records
          castable_to_records)
  also have "\<lparr>columns = columns_order, rows = []\<rparr> = ds\<lparr>rows := []\<rparr>"
    by (subst ds) simp
  finally show "transform_data (to_records ds) = Inr (ds\<lparr>rows := []\<rparr>)" .
next
  assume "rows ds = []"
  then show "transform_data (to_records ds) = Inl (ValidationError EmptyInput)"
    by (simp add: transform_data_eq to_records_def)
qed (simp_all add: typed_values_missing)

lemma sample_second_run:
  "transform_data (to_records \<lparr>columns = columns_order, rows = [sample_clean_row]\<rparr>) =
     Inr \<lparr>columns = columns_order, rows = []\<rparr>"
proof -
  let ?ds = "\<lparr>columns = columns_order, rows = [sample_clean_row]\<rparr>"
  have r: "to_records ?ds = [record_of_row sample_clean_row]"
    by (simp add: to_records_def)
  have k: "key_present Title (to_records ?ds)" "key_present timestamp (to_records ?ds)"
    "key_present Price (to_records ?ds)" "key_present Rating (to_records ?ds)"
    "key_present Colors (to_records ?ds)" "key_present Size (to_records ?ds)"
    "key_present Gender (to_records ?ds)"
    by (simp_all add: to_records_def key_present_def record_of_row_def sample_clean_row_def)
  have ok: "list_all (\<lambda>d. \<not> isl (clean_price (cell_value (Price d)))) (to_records ?ds)"
    "list_all (\<lambda>d. \<not> isl (clean_rating (cell_value (Rating d)))) (to_records ?ds)"
    "list_all (\<lambda>d. \<not> isl (clean_colors (cell_value (Colors d)))) (to_records ?ds)"
    "list_all (\<lambda>d. \<not> isl (clean_size (cell_value (Size d)))) (to_records ?ds)"
    "list_all (\<lambda>d. \<not> isl (clean_gender (cell_value (Gender d)))) (to_records ?ds)"
    unfolding list_all_iff using to_records_cleaners by blast+
  have "to_records ?ds \<noteq> []"
    by (simp add: r)
  then show ?thesis
    using k ok
    by (simp add: transform_data_eq final_rows_to_records readable_to_records
          castable_to_records)
qed

text \<open>The sample batch cleans to one row; cleaning that row again leaves none.\<close>

theorem transform_twice_counterexample:
  "transform_data sample_batch = Inr \<lparr>columns = columns_order, rows = [sample_clean_row]\<rparr> \<and>
   transform_data (to_records \<lparr>columns = columns_order, rows = [sample_clean_row]\<rparr>) =
     Inr \<lparr>columns = columns_order, rows = []\<rparr> \<and>
   transform_data (to_records \<lparr>columns = columns_order, rows = [sample_clean_row]\<rparr>) \<noteq>
     Inr \<lparr>columns = columns_order, rows = [sample_clean_row]\<rparr>"
  using sample_batch_transform sample_second_run by simp

theorem transform_twice_drops_rows_witness:
  "transform_data sample_batch = Inr \<lparr>columns = columns_order, rows = [sample_clean_row]\<rparr> \<and>
   transform_data (to_records \<lparr>columns = columns_order, rows = [sample_clean_row]\<rparr>) =
     Inr \<lparr>columns = columns_order, rows = []\<rparr>"
  using transform_twice_drops_rows [OF sample_batch_transform] sample_batch_transform
  by simp

end
